theory Spec2Isabelle
  imports Main
begin

section \<open>JavaScript values and built-ins used by the Provider\<close>

text \<open>
  The Provider class of \<^verbatim>\<open>src/Provider/Provider.js\<close> is embedded function by function.
  A thrown \<^verbatim>\<open>Error\<close> is a value \<open>Inl (Error msg)\<close>; a property that may be
  \<^verbatim>\<open>undefined\<close> is an \<open>option\<close>. Strings are byte strings (the UTF-8 form of the
  JavaScript string).
\<close>

text \<open>
  A thrown error object: its \<^verbatim>\<open>name\<close> and its \<^verbatim>\<open>message\<close>. \<^verbatim>\<open>new Error(msg)\<close> has the
  name \<^verbatim>\<open>Error\<close>.
\<close>

datatype error = JsError (err_name: string) (err_message: string)

abbreviation Error :: "string \<Rightarrow> error" where
  "Error msg \<equiv> JsError ''Error'' msg"

abbreviation TypeError :: "string \<Rightarrow> error" where
  "TypeError msg \<equiv> JsError ''TypeError'' msg"

definition error_toString :: "error \<Rightarrow> string" where
  \<comment> \<open>\<^verbatim>\<open>Error.prototype.toString\<close>: the name, the message, or \<^verbatim>\<open>name: message\<close>.\<close>
  "error_toString err =
     (if err_name err = [] then err_message err
      else if err_message err = [] then err_name err
      else err_name err @ '': '' @ err_message err)"

text \<open>Opaque JSON values carried through from the id token to the stored rows.\<close>

datatype json =
    JNull
  | JBool bool
  | JNum int
  | JStr string
  | JArr "json list"
  | JObj "(string \<times> json) list"

definition truthy :: "string option \<Rightarrow> bool" where
  \<comment> \<open>\<^verbatim>\<open>!!v\<close> for a value that is a string or undefined: undefined and \<^verbatim>\<open>''\<close> are falsy.\<close>
  "truthy v = (case v of None \<Rightarrow> False | Some s \<Rightarrow> s \<noteq> [])"

definition array_truthy :: "'a list \<Rightarrow> bool" where
  \<comment> \<open>\<^verbatim>\<open>!!xs\<close> for an array: every object is truthy, the empty array included.\<close>
  "array_truthy xs = True"

definition js_string :: "string option \<Rightarrow> string" where
  \<comment> \<open>ToString of an operand of a string concatenation: undefined prints as \<^verbatim>\<open>undefined\<close>.\<close>
  "js_string v = (case v of None \<Rightarrow> ''undefined'' | Some s \<Rightarrow> s)"

definition hexdigit :: "nat \<Rightarrow> char" where
  "hexdigit n = ''0123456789ABCDEF'' ! (n mod 16)"

definition uri_unreserved :: "char \<Rightarrow> bool" where
  \<comment> \<open>The characters \<^verbatim>\<open>encodeURIComponent\<close> leaves alone: letters, digits and \<^verbatim>\<open>-_.!~*'()\<close>.\<close>
  "uri_unreserved c =
     (c \<in> set ''ABCDEFGHIJKLMNOPQRSTUVWXYZabcdefghijklmnopqrstuvwxyz0123456789-_.!~*()''
      \<or> c = CHR 0x27)"

definition uri_escape :: "char \<Rightarrow> string" where
  "uri_escape c =
     (if uri_unreserved c then [c]
      else [CHR ''%'', hexdigit (of_char c div 16), hexdigit (of_char c mod 16)])"

definition encodeURIComponent :: "string \<Rightarrow> string" where
  \<comment> \<open>Every byte outside the unreserved set becomes \<^verbatim>\<open>%XX\<close>, upper-case hexadecimal.\<close>
  "encodeURIComponent s = concat (map uri_escape s)"


section \<open>The Provider's private fields\<close>

record cookie_options =
  secure :: bool
  httpOnly :: bool
  signed :: bool
  sameSite :: "string option"
  maxAge :: "nat option"

record provider =
  loginRoute :: string
  appRoute :: string
  sessionTimeoutRoute :: string
  invalidTokenRoute :: string
  keysetRoute :: string
  whitelistedRoutes :: "string list"
  ENCRYPTIONKEY :: string
  devMode :: bool
  tokenMaxAge :: "nat option"
  cookieOptions :: cookie_options

definition initial_provider :: "string \<Rightarrow> provider" where
  \<comment> \<open>The pre-initiated variables of the class (lines 28-50), with the key \<^verbatim>\<open>setup\<close> stores.\<close>
  "initial_provider encryptionkey =
     \<lparr> loginRoute = ''/login'',
       appRoute = ''/'',
       sessionTimeoutRoute = ''/sessionTimeout'',
       invalidTokenRoute = ''/invalidToken'',
       keysetRoute = ''/keys'',
       whitelistedRoutes = [],
       ENCRYPTIONKEY = encryptionkey,
       devMode = False,
       tokenMaxAge = Some 10,
       cookieOptions = \<lparr> secure = False, httpOnly = True, signed = True,
                         sameSite = None, maxAge = None \<rparr> \<rparr>"


section \<open>The Store\<close>

text \<open>
  Modelled from the spec: the Database module (\<^verbatim>\<open>Utils/Database\<close>) is not under src.
  Section 6 of the specification gives its contract: \<^verbatim>\<open>Get(encrypted?, collection, filter)\<close>
  returns the matching rows or \<^verbatim>\<open>false\<close>, \<^verbatim>\<open>Replace\<close> is an upsert, \<^verbatim>\<open>Modify\<close> applies a
  patch, \<^verbatim>\<open>Delete\<close> removes the matching rows; the collections are \<^verbatim>\<open>platform\<close>,
  \<^verbatim>\<open>publickey\<close>, \<^verbatim>\<open>privatekey\<close>, \<^verbatim>\<open>idtoken\<close> and \<^verbatim>\<open>contexttoken\<close>, with the rows of
  section 3. Section 7 lets any Store call fail (\<^verbatim>\<open>StoreError\<close>): the store carries, per
  operation and collection, whether the call completes, throws before touching the
  collection, or throws after the write has been applied.
\<close>

record auth_config =
  auth_method :: string
  auth_key :: string

record platform_row =
  platformName :: string
  platformUrl :: string
  clientId :: string
  authEndpoint :: string
  accesstokenEndpoint :: string
  kid :: string
  authConfig :: auth_config

record key_row =
  key_kid :: string
  key_material :: string

record user_info =
  given_name :: "json option"
  family_name :: "json option"
  name :: "json option"
  email :: "json option"

record idtoken_row =
  iss :: string
  user :: string
  roles :: "json option"
  userInfo :: user_info
  platformInfo :: "json option"
  deploymentId :: string
  lis :: "json option"
  endpoint :: "json option"
  namesRoles :: "json option"

text \<open>The \<^verbatim>\<open>context\<close> and \<^verbatim>\<open>resource_link\<close> claims: objects that may carry an \<^verbatim>\<open>id\<close>.\<close>

record lti_object =
  obj_id :: "string option"
  obj_rest :: "(string \<times> json) list"

record contexttoken_row =
  contextId :: string
  path :: string
  ct_user :: string
  targetLinkUri :: "json option"
  ct_context :: "lti_object option"
  resource :: "lti_object option"
  custom :: "json option"
  launchPresentation :: "json option"
  messageType :: "json option"
  version :: "json option"
  deepLinkingSettings :: "json option"

datatype collection = Cplatform | Cpublickey | Cprivatekey | Cidtoken | Ccontexttoken

datatype db_op = OpGet | OpReplace | OpModify | OpDelete

datatype fault = NoFault | ThrowBefore | ThrowAfter

record store =
  platform_rows :: "platform_row list"
  publickey_rows :: "key_row list"
  privatekey_rows :: "key_row list"
  idtoken_rows :: "idtoken_row list"
  contexttoken_rows :: "contexttoken_row list"
  fault_of :: "db_op \<Rightarrow> collection \<Rightarrow> fault"

definition StoreError :: error where
  "StoreError = JsError ''StoreError'' ''the store is unavailable''"

definition rows_Get :: "fault \<Rightarrow> ('r \<Rightarrow> bool) \<Rightarrow> 'r list \<Rightarrow> error + 'r list option" where
  \<comment> \<open>The matching rows, or \<^verbatim>\<open>false\<close> (\<open>None\<close>) when there is none.\<close>
  "rows_Get f matches rs =
     (if f \<noteq> NoFault then Inl StoreError
      else case filter matches rs of [] \<Rightarrow> Inr None | r # rs' \<Rightarrow> Inr (Some (r # rs')))"

fun upsert :: "('r \<Rightarrow> bool) \<Rightarrow> 'r \<Rightarrow> 'r list \<Rightarrow> 'r list" where
  "upsert matches v [] = [v]"
| "upsert matches v (r # rs) = (if matches r then v # rs else r # upsert matches v rs)"

fun patch_first :: "('r \<Rightarrow> bool) \<Rightarrow> ('r \<Rightarrow> 'r) \<Rightarrow> 'r list \<Rightarrow> 'r list" where
  "patch_first matches f [] = []"
| "patch_first matches f (r # rs) =
     (if matches r then f r # rs else r # patch_first matches f rs)"

definition rows_write :: "fault \<Rightarrow> ('r list \<Rightarrow> 'r list) \<Rightarrow> 'r list \<Rightarrow> (error + unit) \<times> 'r list" where
  \<comment> \<open>A write either completes, throws untouched, or throws with the write applied.\<close>
  "rows_write f w rs =
     (case f of
        NoFault \<Rightarrow> (Inr (), w rs)
      | ThrowBefore \<Rightarrow> (Inl StoreError, rs)
      | ThrowAfter \<Rightarrow> (Inl StoreError, w rs))"

definition rows_Replace :: "fault \<Rightarrow> ('r \<Rightarrow> bool) \<Rightarrow> 'r \<Rightarrow> 'r list \<Rightarrow> (error + unit) \<times> 'r list" where
  "rows_Replace f matches v rs = rows_write f (upsert matches v) rs"

definition rows_Modify :: "fault \<Rightarrow> ('r \<Rightarrow> bool) \<Rightarrow> ('r \<Rightarrow> 'r) \<Rightarrow> 'r list \<Rightarrow> (error + unit) \<times> 'r list" where
  \<comment> \<open>The patch goes to the row of the key, which section 3 makes unique: the first match.\<close>
  "rows_Modify f matches patch rs = rows_write f (patch_first matches patch) rs"

definition rows_Delete :: "fault \<Rightarrow> ('r \<Rightarrow> bool) \<Rightarrow> 'r list \<Rightarrow> (error + unit) \<times> 'r list" where
  "rows_Delete f matches rs = rows_write f (filter (\<lambda>r. \<not> matches r)) rs"

text \<open>The calls the Provider makes, one per collection and filter shape.\<close>

definition Database_Get_platform :: "store \<Rightarrow> string option \<Rightarrow> error + platform_row list option" where
  \<comment> \<open>\<^verbatim>\<open>Get(false, 'platform', { platformUrl: url })\<close>; without a filter, every row.\<close>
  "Database_Get_platform st flt =
     rows_Get (fault_of st OpGet Cplatform)
       (\<lambda>r. case flt of None \<Rightarrow> True | Some url \<Rightarrow> platformUrl r = url)
       (platform_rows st)"

definition Database_Replace_platform :: "store \<Rightarrow> string \<Rightarrow> platform_row \<Rightarrow> (error + unit) \<times> store" where
  "Database_Replace_platform st url v =
     (case rows_Replace (fault_of st OpReplace Cplatform) (\<lambda>r. platformUrl r = url) v (platform_rows st) of
        (res, rs) \<Rightarrow> (res, st\<lparr>platform_rows := rs\<rparr>))"

record platform_patch =
  patch_platformName :: string
  patch_clientId :: string
  patch_authEndpoint :: string
  patch_accesstokenEndpoint :: string
  patch_authConfig :: auth_config

definition apply_platform_patch :: "platform_patch \<Rightarrow> platform_row \<Rightarrow> platform_row" where
  "apply_platform_patch m r =
     r\<lparr> platformName := patch_platformName m,
        clientId := patch_clientId m,
        authEndpoint := patch_authEndpoint m,
        accesstokenEndpoint := patch_accesstokenEndpoint m,
        authConfig := patch_authConfig m \<rparr>"

definition Database_Modify_platform :: "store \<Rightarrow> string \<Rightarrow> platform_patch \<Rightarrow> (error + unit) \<times> store" where
  "Database_Modify_platform st url m =
     (case rows_Modify (fault_of st OpModify Cplatform) (\<lambda>r. platformUrl r = url)
             (apply_platform_patch m) (platform_rows st) of
        (res, rs) \<Rightarrow> (res, st\<lparr>platform_rows := rs\<rparr>))"

definition Database_Delete_platform :: "store \<Rightarrow> string \<Rightarrow> (error + unit) \<times> store" where
  "Database_Delete_platform st url =
     (case rows_Delete (fault_of st OpDelete Cplatform) (\<lambda>r. platformUrl r = url) (platform_rows st) of
        (res, rs) \<Rightarrow> (res, st\<lparr>platform_rows := rs\<rparr>))"

definition kid_matches :: "string option \<Rightarrow> key_row \<Rightarrow> bool" where
  \<comment> \<open>The filter \<^verbatim>\<open>{ kid: kid }\<close>: every key row has a kid, so an undefined kid matches none.\<close>
  "kid_matches k r = (case k of None \<Rightarrow> False | Some k' \<Rightarrow> key_kid r = k')"

definition Database_Delete_publickey :: "store \<Rightarrow> string option \<Rightarrow> (error + unit) \<times> store" where
  "Database_Delete_publickey st k =
     (case rows_Delete (fault_of st OpDelete Cpublickey) (kid_matches k) (publickey_rows st) of
        (res, rs) \<Rightarrow> (res, st\<lparr>publickey_rows := rs\<rparr>))"

definition Database_Delete_privatekey :: "store \<Rightarrow> string option \<Rightarrow> (error + unit) \<times> store" where
  "Database_Delete_privatekey st k =
     (case rows_Delete (fault_of st OpDelete Cprivatekey) (kid_matches k) (privatekey_rows st) of
        (res, rs) \<Rightarrow> (res, st\<lparr>privatekey_rows := rs\<rparr>))"

definition idtoken_matches :: "string \<Rightarrow> string \<Rightarrow> string \<Rightarrow> idtoken_row \<Rightarrow> bool" where
  \<comment> \<open>The filter \<^verbatim>\<open>{ iss, deploymentId, user }\<close>.\<close>
  "idtoken_matches i d u r = (iss r = i \<and> deploymentId r = d \<and> user r = u)"

definition Database_Get_idtoken :: "store \<Rightarrow> string \<Rightarrow> string \<Rightarrow> string \<Rightarrow> error + idtoken_row list option" where
  "Database_Get_idtoken st i d u =
     rows_Get (fault_of st OpGet Cidtoken) (idtoken_matches i d u) (idtoken_rows st)"

definition Database_Replace_idtoken :: "store \<Rightarrow> string \<Rightarrow> string \<Rightarrow> string \<Rightarrow> idtoken_row \<Rightarrow> (error + unit) \<times> store" where
  "Database_Replace_idtoken st i d u v =
     (case rows_Replace (fault_of st OpReplace Cidtoken) (idtoken_matches i d u) v (idtoken_rows st) of
        (res, rs) \<Rightarrow> (res, st\<lparr>idtoken_rows := rs\<rparr>))"

definition contexttoken_matches :: "string \<Rightarrow> string \<Rightarrow> contexttoken_row \<Rightarrow> bool" where
  \<comment> \<open>The filter \<^verbatim>\<open>{ contextId, user }\<close>.\<close>
  "contexttoken_matches c u r = (contextId r = c \<and> ct_user r = u)"

definition Database_Get_contexttoken :: "store \<Rightarrow> string \<Rightarrow> string \<Rightarrow> error + contexttoken_row list option" where
  "Database_Get_contexttoken st c u =
     rows_Get (fault_of st OpGet Ccontexttoken) (contexttoken_matches c u) (contexttoken_rows st)"

definition Database_Replace_contexttoken :: "store \<Rightarrow> string \<Rightarrow> string \<Rightarrow> contexttoken_row \<Rightarrow> (error + unit) \<times> store" where
  "Database_Replace_contexttoken st c u v =
     (case rows_Replace (fault_of st OpReplace Ccontexttoken) (contexttoken_matches c u) v
             (contexttoken_rows st) of
        (res, rs) \<Rightarrow> (res, st\<lparr>contexttoken_rows := rs\<rparr>))"


section \<open>Platform objects\<close>

text \<open>
  Modelled from the spec: the Platform class (\<^verbatim>\<open>Utils/Platform\<close>) is not under src. A
  Platform object holds what its constructor is given, the fields of a Platform record of
  section 3 and the encryption key, and its getters (\<^verbatim>\<open>platformName()\<close>,
  \<^verbatim>\<open>platformClientId()\<close>, \<^verbatim>\<open>platformAuthEndpoint()\<close>, \<^verbatim>\<open>platformAccessTokenEndpoint()\<close>,
  \<^verbatim>\<open>platformAuthConfig()\<close>) return them.
\<close>

record platform_obj =
  plat_name :: string
  plat_url :: string
  plat_clientId :: string
  plat_authEndpoint :: string
  plat_accesstokenEndpoint :: string
  plat_kid :: string
  plat_ENCRYPTIONKEY :: string
  plat_authConfig :: auth_config

definition new_Platform ::
  "string \<Rightarrow> string \<Rightarrow> string \<Rightarrow> string \<Rightarrow> string \<Rightarrow> string \<Rightarrow> string \<Rightarrow> auth_config \<Rightarrow> platform_obj" where
  "new_Platform nm url cid authenticationEndpoint accesstokenEp k encryptionkey ac =
     \<lparr> plat_name = nm, plat_url = url, plat_clientId = cid,
       plat_authEndpoint = authenticationEndpoint,
       plat_accesstokenEndpoint = accesstokenEp, plat_kid = k,
       plat_ENCRYPTIONKEY = encryptionkey, plat_authConfig = ac \<rparr>"

definition platform_of_row :: "string \<Rightarrow> platform_row \<Rightarrow> platform_obj" where
  \<comment> \<open>\<^verbatim>\<open>new Platform(obj.platformName, obj.platformUrl, ..., obj.authConfig, Database)\<close>.\<close>
  "platform_of_row encryptionkey obj =
     new_Platform (platformName obj) (platformUrl obj) (clientId obj) (authEndpoint obj)
       (accesstokenEndpoint obj) (kid obj) encryptionkey (authConfig obj)"


section \<open>Requests, responses, tokens and the collaborators outside src\<close>

text \<open>
  \<^verbatim>\<open>valid\<close>, the claims of a validated id token. \<^verbatim>\<open>iss\<close>, \<^verbatim>\<open>sub\<close> and the deployment id
  are strings; the \<^verbatim>\<open>context\<close> and \<^verbatim>\<open>resource_link\<close> claims are objects or absent; the
  other claims are carried through as they are.
\<close>

record claims =
  claim_iss :: string
  claim_sub :: string
  claim_deployment_id :: string
  claim_roles :: "json option"
  claim_given_name :: "json option"
  claim_family_name :: "json option"
  claim_name :: "json option"
  claim_email :: "json option"
  claim_tool_platform :: "json option"
  claim_lis :: "json option"
  claim_endpoint :: "json option"
  claim_namesroleservice :: "json option"
  claim_target_link_uri :: "json option"
  claim_context :: "lti_object option"
  claim_resource_link :: "lti_object option"
  claim_custom :: "json option"
  claim_launch_presentation :: "json option"
  claim_message_type :: "json option"
  claim_version :: "json option"
  claim_deep_linking_settings :: "json option"

record ltik_payload =
  ltik_platformUrl :: string
  ltik_deploymentId :: string
  ltik_platformCode :: string
  ltik_contextId :: string
  ltik_user :: string
  ltik_s :: "string option"

record validation_parameters =
  expected_iss :: "string option"
  expected_maxAge :: "nat option"

record request =
  baseUrl :: string
  req_path :: string
  req_method :: string
  req_token :: "string option"
  signedCookies :: "string \<rightharpoonup> string"
  req_query :: "string \<rightharpoonup> string"
  req_body :: "string \<rightharpoonup> string"

record locals =
  locals_context :: "contexttoken_row option"
  locals_token :: "idtoken_row \<times> contexttoken_row option"
  locals_ltik :: string

record response =
  cookies_set :: "(string \<times> string \<times> cookie_options) list"
  cookies_cleared :: "(string \<times> cookie_options) list"
  res_locals :: "locals option"

datatype outcome =
    Next
  | Redirect string
  | Send nat string
  | SendStatus nat

definition fresh_response :: response where
  "fresh_response = \<lparr> cookies_set = [], cookies_cleared = [], res_locals = None \<rparr>"

definition res_cookie :: "response \<Rightarrow> string \<Rightarrow> string \<Rightarrow> cookie_options \<Rightarrow> response" where
  \<comment> \<open>\<^verbatim>\<open>res.cookie(name, value, options)\<close>.\<close>
  "res_cookie res nm v opts = res\<lparr>cookies_set := cookies_set res @ [(nm, v, opts)]\<rparr>"

definition res_clearCookie :: "response \<Rightarrow> string \<Rightarrow> cookie_options \<Rightarrow> response" where
  \<comment> \<open>\<^verbatim>\<open>res.clearCookie(name, options)\<close>.\<close>
  "res_clearCookie res nm opts = res\<lparr>cookies_cleared := cookies_cleared res @ [(nm, opts)]\<rparr>"

text \<open>
  The functions the Provider calls that are not under src are parameters: those of
  \<^verbatim>\<open>Utils/Auth\<close>, \<^verbatim>\<open>jsonwebtoken\<close>, \<^verbatim>\<open>fast-url-parser\<close>, and the built-ins
  \<^verbatim>\<open>Buffer\<close> (base64), \<^verbatim>\<open>URLSearchParams\<close> and \<^verbatim>\<open>String.prototype.toUpperCase\<close> (a
  Unicode case mapping). Each may throw where the JavaScript one may. \<^verbatim>\<open>validateToken\<close> takes the id token, devMode, the validation
  parameters, the encryption key and the Database (the \<^verbatim>\<open>getPlatform\<close> it is also handed
  reads that Database); \<^verbatim>\<open>generateProviderKeyPair\<close> takes the key, the Database and the
  platform url and returns the kid with the Database as it has left it;
  \<^verbatim>\<open>URLSearchParams_toString\<close> prints the query of the request with one pair appended.
\<close>

record env =
  validateToken :: "string \<Rightarrow> bool \<Rightarrow> validation_parameters \<Rightarrow> string \<Rightarrow> store \<Rightarrow> error + claims"
  generateProviderKeyPair :: "string \<Rightarrow> store \<Rightarrow> string \<Rightarrow> (error + string) \<times> store"
  jwt_sign :: "ltik_payload \<Rightarrow> string \<Rightarrow> error + string"
  jwt_verify :: "string \<Rightarrow> string \<Rightarrow> error + ltik_payload"
  base64 :: "string \<Rightarrow> string"
  URLSearchParams_toString :: "(string \<rightharpoonup> string) \<Rightarrow> string \<times> string \<Rightarrow> string"
  url_format :: "string \<Rightarrow> (string \<times> string option) list \<Rightarrow> string"
  toUpperCase :: "string \<Rightarrow> string"


section \<open>whitelist\<close>

text \<open>
  An argument of \<^verbatim>\<open>whitelist(...routes)\<close> is a bare string or an object that may carry
  \<^verbatim>\<open>route\<close> and \<^verbatim>\<open>method\<close>.
\<close>

datatype route_arg =
    RouteString string
  | RouteObject "string option" "string option"

fun formatRoutes :: "env \<Rightarrow> route_arg list \<Rightarrow> string list \<Rightarrow> error + string list" where
  \<comment> \<open>The \<^verbatim>\<open>for (const route of routes)\<close> loop, with \<^verbatim>\<open>formattedRoutes\<close> as accumulator.\<close>
  "formatRoutes e [] formattedRoutes = Inr formattedRoutes"
| "formatRoutes e (RouteString route # routes) formattedRoutes =
     formatRoutes e routes (formattedRoutes @ [route])"
| "formatRoutes e (RouteObject r m # routes) formattedRoutes =
     (if \<not> truthy r \<or> \<not> truthy m
      then Inl (Error ''Wrong object format on route. Expects string (\"/route\") or object ({ route: \"/route\", method: \"POST\" })'')
      else formatRoutes e routes
             (formattedRoutes @ [js_string r @ ''-method-'' @ toUpperCase e (js_string m)]))"

definition whitelist :: "env \<Rightarrow> provider \<Rightarrow> route_arg list \<Rightarrow> error + (bool \<times> provider)" where
  "whitelist e p routes =
     (if \<not> array_truthy routes then Inl (Error ''No route passed.'')
      else case formatRoutes e routes [] of
             Inl e \<Rightarrow> Inl e
           | Inr formattedRoutes \<Rightarrow> Inr (True, p\<lparr>whitelistedRoutes := formattedRoutes\<rparr>))"

fun stored_route :: "env \<Rightarrow> route_arg \<Rightarrow> string" where
  \<comment> \<open>What \<^verbatim>\<open>formattedRoutes.push\<close> receives for an accepted entry.\<close>
  "stored_route e (RouteString route) = route"
| "stored_route e (RouteObject r m) = js_string r @ ''-method-'' @ toUpperCase e (js_string m)"

fun accepted_route :: "route_arg \<Rightarrow> bool" where
  "accepted_route (RouteString route) = True"
| "accepted_route (RouteObject r m) = (truthy r \<and> truthy m)"


section \<open>getPlatform, getAllPlatforms, registerPlatform\<close>

definition getPlatform ::
  "provider \<Rightarrow> store \<Rightarrow> string option \<Rightarrow> string option \<Rightarrow> store option \<Rightarrow> error + platform_obj option" where
  \<comment> \<open>\<open>None\<close> is the \<^verbatim>\<open>false\<close> the method returns when no platform is found.\<close>
  "getPlatform p st url encryptionkey Database =
     (if \<not> truthy url then Inl (Error ''No url provided'')
      else case Database_Get_platform (case Database of Some d \<Rightarrow> d | None \<Rightarrow> st)
                  (Some (js_string url)) of
             Inl e \<Rightarrow> Inl e
           | Inr None \<Rightarrow> Inr None
           | Inr (Some plat) \<Rightarrow>
               (case plat of
                  [] \<Rightarrow> Inr None
                | obj # _ \<Rightarrow>
                    Inr (Some (platform_of_row
                                 (case encryptionkey of Some k \<Rightarrow> k | None \<Rightarrow> ENCRYPTIONKEY p)
                                 obj))))"

definition getAllPlatforms :: "provider \<Rightarrow> store \<Rightarrow> error + platform_obj list" where
  "getAllPlatforms p st =
     (case Database_Get_platform st None of
        Inl e \<Rightarrow> Inl e
      | Inr None \<Rightarrow> Inr []
      | Inr (Some platforms) \<Rightarrow> Inr (map (platform_of_row (ENCRYPTIONKEY p)) platforms))"

record platform_arg =
  arg_url :: "string option"
  arg_name :: "string option"
  arg_clientId :: "string option"
  arg_authenticationEndpoint :: "string option"
  arg_accesstokenEndpoint :: "string option"
  arg_authConfig :: "auth_config option"

definition js_or :: "string option \<Rightarrow> string \<Rightarrow> string" where
  \<comment> \<open>\<^verbatim>\<open>a || b\<close> with a string on the right.\<close>
  "js_or a b = (if truthy a then js_string a else b)"

definition merge_patch :: "platform_arg \<Rightarrow> platform_obj \<Rightarrow> platform_patch" where
  \<comment> \<open>The patch of line 621: each field is the argument's if truthy, else the getter's.\<close>
  "merge_patch platform existing =
     \<lparr> patch_platformName = js_or (arg_name platform) (plat_name existing),
       patch_clientId = js_or (arg_clientId platform) (plat_clientId existing),
       patch_authEndpoint = js_or (arg_authenticationEndpoint platform) (plat_authEndpoint existing),
       patch_accesstokenEndpoint =
         js_or (arg_accesstokenEndpoint platform) (plat_accesstokenEndpoint existing),
       patch_authConfig =
         (case arg_authConfig platform of Some ac \<Rightarrow> ac | None \<Rightarrow> plat_authConfig existing) \<rparr>"

definition registerPlatform_try ::
  "env \<Rightarrow> provider \<Rightarrow> store \<Rightarrow> platform_arg \<Rightarrow> (error + platform_obj) \<times> string option \<times> store" where
  \<comment> \<open>The \<^verbatim>\<open>try\<close> block: its result, the variable \<^verbatim>\<open>kid\<close> as it stands, and the store.\<close>
  "registerPlatform_try e p st platform =
     (case getPlatform p st (arg_url platform) None None of
        Inl err \<Rightarrow> (Inl err, None, st)
      | Inr None \<Rightarrow>
          (case arg_authConfig platform of
             None \<Rightarrow> (Inl (Error ''Error registering platform. Missing arguments.''), None, st)
           | Some ac \<Rightarrow>
               (if \<not> truthy (arg_name platform) \<or> \<not> truthy (arg_clientId platform)
                  \<or> \<not> truthy (arg_authenticationEndpoint platform)
                  \<or> \<not> truthy (arg_accesstokenEndpoint platform)
               then (Inl (Error ''Error registering platform. Missing arguments.''), None, st)
               else
                 (case generateProviderKeyPair e (ENCRYPTIONKEY p) st (js_string (arg_url platform)) of
                    (Inl err, st1) \<Rightarrow> (Inl err, None, st1)
                  | (Inr k, st1) \<Rightarrow>
                      (let plat = new_Platform (js_string (arg_name platform))
                                   (js_string (arg_url platform))
                                   (js_string (arg_clientId platform))
                                   (js_string (arg_authenticationEndpoint platform))
                                   (js_string (arg_accesstokenEndpoint platform))
                                   k (ENCRYPTIONKEY p) ac
                       in case Database_Replace_platform st1 (js_string (arg_url platform))
                                \<lparr> platformName = js_string (arg_name platform),
                                  platformUrl = js_string (arg_url platform),
                                  clientId = js_string (arg_clientId platform),
                                  authEndpoint = js_string (arg_authenticationEndpoint platform),
                                  accesstokenEndpoint = js_string (arg_accesstokenEndpoint platform),
                                  kid = k,
                                  authConfig = ac \<rparr> of
                           (Inl err, st2) \<Rightarrow> (Inl err, Some k, st2)
                         | (Inr _, st2) \<Rightarrow> (Inr plat, Some k, st2)))))
      | Inr (Some existing) \<Rightarrow>
          (case Database_Modify_platform st (js_string (arg_url platform))
                  (merge_patch platform existing) of
             (Inl err, st1) \<Rightarrow> (Inl err, None, st1)
           | (Inr _, st1) \<Rightarrow> (Inr existing, None, st1)))"

definition registerPlatform_catch :: "store \<Rightarrow> string option \<Rightarrow> string \<Rightarrow> (error + unit) \<times> store" where
  \<comment> \<open>The three deletions of the \<^verbatim>\<open>catch\<close> block; one that throws ends the block.\<close>
  "registerPlatform_catch st k url =
     (case Database_Delete_publickey st k of
        (Inl err, st1) \<Rightarrow> (Inl err, st1)
      | (Inr _, st1) \<Rightarrow>
          (case Database_Delete_privatekey st1 k of
             (Inl err, st2) \<Rightarrow> (Inl err, st2)
           | (Inr _, st2) \<Rightarrow> Database_Delete_platform st2 url))"

definition rethrow :: "error \<Rightarrow> error" where
  \<comment> \<open>\<^verbatim>\<open>throw new Error(err)\<close>: the message is \<^verbatim>\<open>String(err)\<close>.\<close>
  "rethrow err = Error (error_toString err)"

definition registerPlatform ::
  "env \<Rightarrow> provider \<Rightarrow> store \<Rightarrow> platform_arg option \<Rightarrow> (error + platform_obj) \<times> store" where
  "registerPlatform e p st platform =
     (case platform of
        None \<Rightarrow> (Inl (Error ''Error. Missing platform Url.''), st)
      | Some pl \<Rightarrow>
          (if \<not> truthy (arg_url pl) then (Inl (Error ''Error. Missing platform Url.''), st)
           else (case registerPlatform_try e p st pl of
                   (Inr plat, k, st1) \<Rightarrow> (Inr plat, st1)
                 | (Inl err, k, st1) \<Rightarrow>
                     (case registerPlatform_catch st1 k (js_string (arg_url pl)) of
                        (Inl err', st2) \<Rightarrow> (Inl err', st2)
                      | (Inr _, st2) \<Rightarrow> (Inl (rethrow err), st2)))))"


section \<open>The authentication middleware\<close>

definition reserved_path :: "provider \<Rightarrow> string \<Rightarrow> bool" where
  \<comment> \<open>Line 165: the routes the middleware lets through unchecked.\<close>
  "reserved_path p pth =
     (pth = loginRoute p \<or> pth = sessionTimeoutRoute p \<or> pth = invalidTokenRoute p
      \<or> pth = keysetRoute p)"

definition whitelisted :: "env \<Rightarrow> provider \<Rightarrow> request \<Rightarrow> bool" where
  "whitelisted e p req =
     (req_path req \<in> set (whitelistedRoutes p)
      \<or> req_path req @ ''-method-'' @ toUpperCase e (req_method req) \<in> set (whitelistedRoutes p))"

definition launch_contextId :: "claims \<Rightarrow> string" where
  \<comment> \<open>Lines 202-206: \<^verbatim>\<open>courseId\<close>, \<^verbatim>\<open>resourceId\<close>, \<^verbatim>\<open>deploymentId\<close> and \<^verbatim>\<open>contextId\<close>.\<close>
  "launch_contextId valid =
     (let courseId = (case claim_context valid of Some c \<Rightarrow> obj_id c | None \<Rightarrow> Some ''NF'');
          resourceId = (case claim_resource_link valid of Some r \<Rightarrow> obj_id r | None \<Rightarrow> Some ''NF'');
          deploymentId' = claim_deployment_id valid
      in encodeURIComponent
           (claim_iss valid @ deploymentId' @ js_string courseId @ ''_'' @ js_string resourceId))"

definition launch_platformCode :: "env \<Rightarrow> claims \<Rightarrow> string" where
  \<comment> \<open>Line 207.\<close>
  "launch_platformCode e valid =
     encodeURIComponent (''lti'' @ base64 e (claim_iss valid @ claim_deployment_id valid))"

definition platformToken_of :: "claims \<Rightarrow> idtoken_row" where
  \<comment> \<open>Lines 210-225: \<^verbatim>\<open>platformToken\<close>.\<close>
  "platformToken_of valid =
     \<lparr> iss = claim_iss valid,
       user = claim_sub valid,
       roles = claim_roles valid,
       userInfo = \<lparr> given_name = claim_given_name valid,
                    family_name = claim_family_name valid,
                    name = claim_name valid,
                    email = claim_email valid \<rparr>,
       platformInfo = claim_tool_platform valid,
       deploymentId = claim_deployment_id valid,
       lis = claim_lis valid,
       endpoint = claim_endpoint valid,
       namesRoles = claim_namesroleservice valid \<rparr>"

definition contextToken_of :: "request \<Rightarrow> claims \<Rightarrow> contexttoken_row" where
  \<comment> \<open>Lines 231-243: \<^verbatim>\<open>contextToken\<close>.\<close>
  "contextToken_of req valid =
     \<lparr> contextId = launch_contextId valid,
       path = req_path req,
       ct_user = claim_sub valid,
       targetLinkUri = claim_target_link_uri valid,
       ct_context = claim_context valid,
       resource = claim_resource_link valid,
       custom = claim_custom valid,
       launchPresentation = claim_launch_presentation valid,
       messageType = claim_message_type valid,
       version = claim_version valid,
       deepLinkingSettings = claim_deep_linking_settings valid \<rparr>"

definition newLtikObj_of :: "env \<Rightarrow> string option \<Rightarrow> claims \<Rightarrow> ltik_payload" where
  \<comment> \<open>Lines 252-259: \<^verbatim>\<open>newLtikObj\<close>.\<close>
  "newLtikObj_of e state valid =
     \<lparr> ltik_platformUrl = claim_iss valid,
       ltik_deploymentId = claim_deployment_id valid,
       ltik_platformCode = launch_platformCode e valid,
       ltik_contextId = launch_contextId valid,
       ltik_user = claim_sub valid,
       ltik_s = state \<rparr>"

definition sessionValidator_materialize ::
  "env \<Rightarrow> provider \<Rightarrow> store \<Rightarrow> request \<Rightarrow> response \<Rightarrow> string option \<Rightarrow> claims \<Rightarrow>
   (error + outcome) \<times> response \<times> store" where
  \<comment> \<open>Lines 198-267: what follows a successful \<^verbatim>\<open>validateToken\<close>.\<close>
  "sessionValidator_materialize e p st req res state valid =
     (let res1 = res_clearCookie res (''state'' @ js_string state) (cookieOptions p)
      in case Database_Replace_idtoken st (claim_iss valid) (claim_deployment_id valid)
                (claim_sub valid) (platformToken_of valid) of
           (Inl err, st1) \<Rightarrow> (Inl err, res1, st1)
         | (Inr _, st1) \<Rightarrow>
             (case Database_Replace_contexttoken st1 (launch_contextId valid) (claim_sub valid)
                     (contextToken_of req valid) of
                (Inl err, st2) \<Rightarrow> (Inl err, res1, st2)
              | (Inr _, st2) \<Rightarrow>
                  (let res2 = res_cookie res1 (launch_platformCode e valid) (claim_sub valid)
                                (cookieOptions p)
                   in case jwt_sign e (newLtikObj_of e state valid) (ENCRYPTIONKEY p) of
                        Inl err \<Rightarrow> (Inl err, res2, st2)
                      | Inr newLtik \<Rightarrow>
                          (Inr (Redirect
                                  (baseUrl req @ req_path req @ ''?''
                                   @ URLSearchParams_toString e (req_query req) (''ltik'', newLtik))),
                           res2, st2))))"

definition sessionValidator_launch ::
  "env \<Rightarrow> provider \<Rightarrow> store \<Rightarrow> request \<Rightarrow> response \<Rightarrow> string \<Rightarrow> (error + outcome) \<times> response \<times> store" where
  \<comment> \<open>Lines 180-267: no ltik, the body carries an id token. The result is what the
      \<^verbatim>\<open>try\<close> block returns or throws, with the response and the store as they stand then.\<close>
  "sessionValidator_launch e p st req res idtoken =
     (let state = req_body req ''state'';
          validationCookie = signedCookies req (''state'' @ js_string state);
          validationParameters = \<lparr> expected_iss = validationCookie, expected_maxAge = tokenMaxAge p \<rparr>
      in case validateToken e idtoken (devMode p) validationParameters (ENCRYPTIONKEY p) st of
           Inl err \<Rightarrow> (Inl err, res, st)
         | Inr valid \<Rightarrow> sessionValidator_materialize e p st req res state valid)"

definition session_user :: "provider \<Rightarrow> request \<Rightarrow> ltik_payload \<Rightarrow> string option" where
  \<comment> \<open>Lines 296-303: the variable \<^verbatim>\<open>user\<close> after the cookie check, a string or
      \<^verbatim>\<open>false\<close> (\<open>None\<close>).\<close>
  "session_user p req validLtik =
     (let cookieUser = signedCookies req (ltik_platformCode validLtik)
      in if \<not> truthy cookieUser
         then (if \<not> devMode p then None else Some (ltik_user validLtik))
         else if ltik_user validLtik \<noteq> js_string cookieUser then None
         else Some (ltik_user validLtik))"

definition sessionValidator_load ::
  "store \<Rightarrow> response \<Rightarrow> string \<Rightarrow> ltik_payload \<Rightarrow> string \<Rightarrow> (error + outcome) \<times> response" where
  \<comment> \<open>Lines 306-324: a session was found; both tokens are read from the database.\<close>
  "sessionValidator_load st res ltik validLtik usr =
     (case Database_Get_idtoken st (ltik_platformUrl validLtik) (ltik_deploymentId validLtik) usr of
        Inl err \<Rightarrow> (Inl err, res)
      | Inr None \<Rightarrow> (Inl (Error ''No id token found in database''), res)
      | Inr (Some idTokens) \<Rightarrow>
          (case Database_Get_contexttoken st (ltik_contextId validLtik) usr of
             Inl err \<Rightarrow> (Inl err, res)
           | Inr None \<Rightarrow> (Inl (Error ''No context token found in database''), res)
           | Inr (Some contextTokens) \<Rightarrow>
               (case idTokens of
                  [] \<Rightarrow>
                    (Inl (TypeError ''Cannot set property platformContext of undefined''), res)
                | idToken # _ \<Rightarrow>
                    (let contextToken = (case contextTokens of [] \<Rightarrow> None | c # _ \<Rightarrow> Some c)
                     in (Inr Next,
                         res\<lparr>res_locals :=
                               Some \<lparr> locals_context = contextToken,
                                      locals_token = (idToken, contextToken),
                                      locals_ltik = ltik \<rparr>\<rparr>)))))"

definition sessionValidator_session ::
  "env \<Rightarrow> provider \<Rightarrow> store \<Rightarrow> request \<Rightarrow> response \<Rightarrow> string \<Rightarrow> (error + outcome) \<times> response" where
  \<comment> \<open>Lines 279-330: an ltik was found.\<close>
  "sessionValidator_session e p st req res ltik =
     (case jwt_verify e ltik (ENCRYPTIONKEY p) of
        Inl err \<Rightarrow>
          (if whitelisted e p req then (Inr Next, res) else (Inl (Error (err_message err)), res))
      | Inr validLtik \<Rightarrow>
          (let user' = session_user p req validLtik
           in if truthy user'
              then sessionValidator_load st res ltik validLtik (js_string user')
              else (Inr (Redirect (baseUrl req @ sessionTimeoutRoute p)), res)))"

definition sessionValidator_try ::
  "env \<Rightarrow> provider \<Rightarrow> store \<Rightarrow> request \<Rightarrow> response \<Rightarrow> (error + outcome) \<times> response \<times> store" where
  \<comment> \<open>The \<^verbatim>\<open>try\<close> block of lines 169-330.\<close>
  "sessionValidator_try e p st req res =
     (if \<not> truthy (req_token req)
      then (if truthy (req_body req ''id_token'')
            then sessionValidator_launch e p st req res (js_string (req_body req ''id_token''))
            else if whitelisted e p req then (Inr Next, res, st)
            else (Inr (Redirect (baseUrl req @ invalidTokenRoute p)), res, st))
      else (case sessionValidator_session e p st req res (js_string (req_token req)) of
              (r, res') \<Rightarrow> (r, res', st)))"

definition sessionValidator ::
  "env \<Rightarrow> provider \<Rightarrow> store \<Rightarrow> request \<Rightarrow> response \<Rightarrow> outcome \<times> response \<times> store" where
  \<comment> \<open>What the middleware answers, the response object and the store when it is done.\<close>
  "sessionValidator e p st req res =
     (if reserved_path p (req_path req) then (Next, res, st)
      else (case sessionValidator_try e p st req res of
              (Inl err, res', st') \<Rightarrow> (Redirect (baseUrl req @ invalidTokenRoute p), res', st')
            | (Inr out, res', st') \<Rightarrow> (out, res', st')))"


section \<open>The login route\<close>

text \<open>
  Modelled from the spec: \<^verbatim>\<open>Request.ltiAdvantageLogin\<close> (\<^verbatim>\<open>Utils/Request\<close>) is not under
  src. Section 4.2, step 4, of the specification has it build the OIDC authentication
  request: \<^verbatim>\<open>scope=openid\<close>, \<^verbatim>\<open>response_type=id_token\<close>, \<^verbatim>\<open>response_mode=form_post\<close>,
  \<^verbatim>\<open>prompt=none\<close>, the echoed \<^verbatim>\<open>login_hint\<close> and \<^verbatim>\<open>lti_message_hint\<close>, the \<^verbatim>\<open>client_id\<close> of
  the platform record, \<^verbatim>\<open>redirect_uri = target_link_uri\<close>, a fresh nonce and the state. The
  fresh nonce is an argument; a parameter the request lacks is undefined in the query.
\<close>

definition ltiAdvantageLogin ::
  "(string \<rightharpoonup> string) \<Rightarrow> platform_obj \<Rightarrow> string \<Rightarrow> string \<Rightarrow> (string \<times> string option) list" where
  "ltiAdvantageLogin params platform state nonce =
     [(''scope'', Some ''openid''),
      (''response_type'', Some ''id_token''),
      (''response_mode'', Some ''form_post''),
      (''prompt'', Some ''none''),
      (''login_hint'', params ''login_hint''),
      (''lti_message_hint'', params ''lti_message_hint''),
      (''client_id'', Some (plat_clientId platform)),
      (''redirect_uri'', params ''target_link_uri''),
      (''nonce'', Some nonce),
      (''state'', Some state)]"

definition login_try ::
  "env \<Rightarrow> provider \<Rightarrow> store \<Rightarrow> request \<Rightarrow> string \<Rightarrow> string \<Rightarrow> response \<Rightarrow>
   (error + outcome) \<times> response" where
  \<comment> \<open>The \<^verbatim>\<open>try\<close> block of the handler of lines 340-374. The twenty random base-36 digits
      of line 350 are the argument \<open>rnd\<close>, the nonce of the login request is \<open>nonce\<close>.\<close>
  "login_try e p st req rnd nonce res =
     (let params = req_query req ++ req_body req;
          iss' = params ''iss''
      in case getPlatform p st iss' None None of
           Inl err \<Rightarrow> (Inl err, res)
         | Inr None \<Rightarrow> (Inr (Send 401 ''Unregistered platform.''), res)
         | Inr (Some platform) \<Rightarrow>
             (let state = encodeURIComponent rnd;
                  cookieOptions' = (cookieOptions p)\<lparr>maxAge := Some (60 * 10 * 1000)\<rparr>;
                  res1 = res_cookie res (''state'' @ state) (js_string iss') cookieOptions';
                  query = ltiAdvantageLogin params platform state nonce
              in (Inr (Redirect (url_format e (plat_authEndpoint platform) query)), res1)))"

definition login ::
  "env \<Rightarrow> provider \<Rightarrow> store \<Rightarrow> request \<Rightarrow> string \<Rightarrow> string \<Rightarrow> response \<Rightarrow> outcome \<times> response" where
  \<comment> \<open>The handler: an error of the block is answered with \<^verbatim>\<open>res.sendStatus(400)\<close>.\<close>
  "login e p st req rnd nonce res =
     (case login_try e p st req rnd nonce res of
        (Inl err, res') \<Rightarrow> (SendStatus 400, res')
      | (Inr out, res') \<Rightarrow> (out, res'))"


section \<open>Concrete inputs\<close>

text \<open>
  One registered platform, \<^verbatim>\<open>https://lms.example\<close>, and a launch of user \<^verbatim>\<open>u1\<close> in
  deployment \<^verbatim>\<open>d\<close>, context \<^verbatim>\<open>c\<close>, resource \<^verbatim>\<open>r\<close>. The collaborators are stand-ins: the
  validator accepts one id token, the verifier one ltik, key generation stores a pair
  under \<^verbatim>\<open>kid-1\<close>, and upper-casing is the one of ASCII strings.
\<close>

definition ascii_toUpperCase :: "string \<Rightarrow> string" where
  \<comment> \<open>What \<^verbatim>\<open>toUpperCase\<close> does on a string of ASCII characters.\<close>
  "ascii_toUpperCase s =
     map (\<lambda>c. case map_of (zip ''abcdefghijklmnopqrstuvwxyz'' ''ABCDEFGHIJKLMNOPQRSTUVWXYZ'') c of
                 Some u \<Rightarrow> u
               | None \<Rightarrow> c) s"

definition example_auth_config :: auth_config where
  "example_auth_config = \<lparr> auth_method = ''JWK_SET'', auth_key = ''https://lms.example/jwks'' \<rparr>"

definition example_platform_row :: platform_row where
  "example_platform_row =
     \<lparr> platformName = ''Moodle'',
       platformUrl = ''https://lms.example'',
       clientId = ''C'',
       authEndpoint = ''https://lms.example/auth'',
       accesstokenEndpoint = ''https://lms.example/token'',
       kid = ''kid-0'',
       authConfig = example_auth_config \<rparr>"

definition example_claims :: claims where
  "example_claims =
     \<lparr> claim_iss = ''https://lms.example'',
       claim_sub = ''u1'',
       claim_deployment_id = ''d'',
       claim_roles = None,
       claim_given_name = None,
       claim_family_name = None,
       claim_name = None,
       claim_email = None,
       claim_tool_platform = None,
       claim_lis = None,
       claim_endpoint = None,
       claim_namesroleservice = None,
       claim_target_link_uri = Some (JStr ''https://tool.example/''),
       claim_context = Some \<lparr> obj_id = Some ''c'', obj_rest = [] \<rparr>,
       claim_resource_link = Some \<lparr> obj_id = Some ''r'', obj_rest = [] \<rparr>,
       claim_custom = None,
       claim_launch_presentation = None,
       claim_message_type = Some (JStr ''LtiResourceLinkRequest''),
       claim_version = Some (JStr ''1.3.0''),
       claim_deep_linking_settings = None \<rparr>"

definition example_ltik :: ltik_payload where
  "example_ltik =
     \<lparr> ltik_platformUrl = ''https://lms.example'',
       ltik_deploymentId = ''d'',
       ltik_platformCode = ''ltiaHR0cHM6Ly9sbXMuZXhhbXBsZWQ%3D'',
       ltik_contextId = ''https%3A%2F%2Flms.exampledc_r'',
       ltik_user = ''u1'',
       ltik_s = Some ''abc'' \<rparr>"

definition example_env :: env where
  "example_env =
     \<lparr> validateToken =
         (\<lambda>idtoken dev params k st.
            if idtoken = ''good-id-token'' then Inr example_claims
            else Inl (Error ''invalid token'')),
       generateProviderKeyPair =
         (\<lambda>k st url.
            (Inr ''kid-1'',
             st\<lparr> publickey_rows :=
                    publickey_rows st @ [\<lparr> key_kid = ''kid-1'', key_material = ''PUBLIC-1'' \<rparr>],
                  privatekey_rows :=
                    privatekey_rows st @ [\<lparr> key_kid = ''kid-1'', key_material = ''PRIVATE-1'' \<rparr>] \<rparr>)),
       jwt_sign = (\<lambda>payload k. Inr (''ltik-'' @ ltik_user payload)),
       jwt_verify =
         (\<lambda>tok k. if tok = ''ltik-u1'' then Inr example_ltik else Inl (Error ''invalid signature'')),
       base64 = (\<lambda>s. ''aHR0cHM6Ly9sbXMuZXhhbXBsZWQ=''),
       URLSearchParams_toString = (\<lambda>q (k, v). k @ ''='' @ v),
       url_format = (\<lambda>pathname query. pathname),
       toUpperCase = ascii_toUpperCase \<rparr>"

definition example_provider :: provider where
  "example_provider = initial_provider ''secret''"

definition example_store :: store where
  \<comment> \<open>The platform and its key pair; no session yet.\<close>
  "example_store =
     \<lparr> platform_rows = [example_platform_row],
       publickey_rows = [\<lparr> key_kid = ''kid-0'', key_material = ''PUBLIC-0'' \<rparr>],
       privatekey_rows = [\<lparr> key_kid = ''kid-0'', key_material = ''PRIVATE-0'' \<rparr>],
       idtoken_rows = [],
       contexttoken_rows = [],
       fault_of = (\<lambda>opn c. NoFault) \<rparr>"

definition example_store_idtoken_only :: store where
  \<comment> \<open>The IdToken row of the launch is there, its ContextToken row is not.\<close>
  "example_store_idtoken_only =
     example_store\<lparr>idtoken_rows := [platformToken_of example_claims]\<rparr>"

definition example_store_unavailable :: store where
  \<comment> \<open>Every call throws.\<close>
  "example_store_unavailable = example_store\<lparr>fault_of := (\<lambda>opn c. ThrowBefore)\<rparr>"

definition example_store_goes_away :: store where
  \<comment> \<open>An upsert into \<^verbatim>\<open>platform\<close> writes the row and then throws, and from then on every
      deletion throws.\<close>
  "example_store_goes_away =
     example_store\<lparr>fault_of :=
       (\<lambda>opn c. if opn = OpReplace \<and> c = Cplatform then ThrowAfter
                else if opn = OpDelete then ThrowBefore else NoFault)\<rparr>"

definition example_store_replace_fails :: store where
  \<comment> \<open>An upsert into \<^verbatim>\<open>platform\<close> writes the row and then throws.\<close>
  "example_store_replace_fails =
     example_store\<lparr>fault_of :=
       (\<lambda>opn c. if opn = OpReplace \<and> c = Cplatform then ThrowAfter else NoFault)\<rparr>"

definition example_request :: request where
  "example_request =
     \<lparr> baseUrl = [], req_path = ''/'', req_method = ''POST'', req_token = None,
       signedCookies = Map.empty, req_query = Map.empty, req_body = Map.empty \<rparr>"

definition example_callback_bad_token :: request where
  \<comment> \<open>The platform posts an id token the validator rejects; the state cookie is present.\<close>
  "example_callback_bad_token =
     example_request\<lparr>
       signedCookies := [''stateabc'' \<mapsto> ''https://lms.example''],
       req_body := [''id_token'' \<mapsto> ''bad-id-token'', ''state'' \<mapsto> ''abc'']\<rparr>"

definition example_callback :: request where
  "example_callback =
     example_request\<lparr>
       signedCookies := [''stateabc'' \<mapsto> ''https://lms.example''],
       req_body := [''id_token'' \<mapsto> ''good-id-token'', ''state'' \<mapsto> ''abc'']\<rparr>"

definition example_store_session :: store where
  \<comment> \<open>Both rows of the launch are there.\<close>
  "example_store_session =
     example_store\<lparr>idtoken_rows := [platformToken_of example_claims],
                    contexttoken_rows := [contextToken_of example_callback example_claims]\<rparr>"

definition example_session_request :: request where
  \<comment> \<open>A request with the ltik of the launch and the matching session cookie.\<close>
  "example_session_request =
     example_request\<lparr>
       req_method := ''GET'',
       req_token := Some ''ltik-u1'',
       signedCookies := [''ltiaHR0cHM6Ly9sbXMuZXhhbXBsZWQ%3D'' \<mapsto> ''u1'']\<rparr>"

definition example_session_request_other_user :: request where
  \<comment> \<open>The same ltik with the session cookie of another user.\<close>
  "example_session_request_other_user =
     example_session_request\<lparr>
       signedCookies := [''ltiaHR0cHM6Ly9sbXMuZXhhbXBsZWQ%3D'' \<mapsto> ''u2'']\<rparr>"

definition example_new_platform :: platform_arg where
  "example_new_platform =
     \<lparr> arg_url = Some ''https://canvas.example'',
       arg_name = Some ''Canvas'',
       arg_clientId = Some ''D'',
       arg_authenticationEndpoint = Some ''https://canvas.example/auth'',
       arg_accesstokenEndpoint = Some ''https://canvas.example/token'',
       arg_authConfig = Some example_auth_config \<rparr>"

definition example_rename :: platform_arg where
  \<comment> \<open>\<^verbatim>\<open>{ url: 'https://lms.example', name: 'Moodle 4' }\<close>.\<close>
  "example_rename =
     \<lparr> arg_url = Some ''https://lms.example'',
       arg_name = Some ''Moodle 4'',
       arg_clientId = None,
       arg_authenticationEndpoint = None,
       arg_accesstokenEndpoint = None,
       arg_authConfig = None \<rparr>"

definition example_empty_name :: platform_arg where
  \<comment> \<open>\<^verbatim>\<open>{ url: 'https://lms.example', name: '' }\<close>.\<close>
  "example_empty_name = example_rename\<lparr>arg_name := Some []\<rparr>"

definition example_login_without_iss :: request where
  \<comment> \<open>A login request that names no issuer.\<close>
  "example_login_without_iss = example_request\<lparr>req_path := ''/login'', req_method := ''GET''\<rparr>"

definition example_login :: request where
  \<comment> \<open>A login request of the registered platform.\<close>
  "example_login =
     example_request\<lparr>
       req_path := ''/login'', req_method := ''GET'',
       req_query := [''iss'' \<mapsto> ''https://lms.example'', ''login_hint'' \<mapsto> ''u1'',
                     ''target_link_uri'' \<mapsto> ''https://tool.example/'']\<rparr>"


section \<open>Properties of whitelist\<close>

lemma formatRoutes_accepted:
  "list_all accepted_route routes \<Longrightarrow>
   formatRoutes e routes acc = Inr (acc @ map (stored_route e) routes)"
proof (induction routes arbitrary: acc)
  case Nil
  then show ?case by simp
next
  case (Cons a routes)
  then show ?case by (cases a) simp_all
qed

lemma formatRoutes_rejected:
  "\<not> list_all accepted_route routes \<Longrightarrow> \<exists>err. formatRoutes e routes acc = Inl err"
proof (induction routes arbitrary: acc)
  case Nil
  then show ?case by simp
next
  case (Cons a routes)
  then show ?case by (cases a) auto
qed

lemma whitelist_object_without_route_or_method:
  "RouteObject r m \<in> set routes \<Longrightarrow> \<not> truthy r \<or> \<not> truthy m \<Longrightarrow>
   \<exists>err. whitelist e p routes = Inl err"
proof -
  assume a: "RouteObject r m \<in> set routes" and b: "\<not> truthy r \<or> \<not> truthy m"
  from b have "\<not> accepted_route (RouteObject r m)" by simp
  with a have "\<not> list_all accepted_route routes"
    unfolding list_all_iff by blast
  then obtain err where "formatRoutes e routes [] = Inl err"
    using formatRoutes_rejected by blast
  then show ?thesis by (simp add: whitelist_def array_truthy_def)
qed

lemma whitelist_stores_accepted:
  "list_all accepted_route routes \<Longrightarrow>
   whitelist e p routes = Inr (True, p\<lparr>whitelistedRoutes := map (stored_route e) routes\<rparr>)"
  using formatRoutes_accepted [of routes e "[]"]
  by (simp add: whitelist_def array_truthy_def)

text \<open>
  C8. The specification has \<^verbatim>\<open>whitelist\<close> throw when it is called with no routes. The guard
  \<^verbatim>\<open>if (!routes) throw new Error('No route passed.')\<close> tests a rest parameter, which is
  an array and therefore truthy even when empty: a call with no arguments returns
  \<^verbatim>\<open>true\<close> and empties the whitelist instead of throwing.
\<close>

theorem whitelist_no_routes_returns:
  "whitelist e p [] = Inr (True, p\<lparr>whitelistedRoutes := []\<rparr>)"
  by (simp add: whitelist_def array_truthy_def)


section \<open>Facts about the Store\<close>

lemma rows_Get_all: "rows_Get NoFault (\<lambda>r. True) rs = Inr (case rs of [] \<Rightarrow> None | _ \<Rightarrow> Some rs)"
  by (cases rs) (simp_all add: rows_Get_def)

lemma rows_Get_Some:
  "rows_Get f P rs = Inr (Some xs) \<longleftrightarrow> f = NoFault \<and> xs \<noteq> [] \<and> xs = filter P rs"
  by (auto simp: rows_Get_def split: list.splits)

lemma rows_Delete_NoFault:
  "rows_Delete NoFault P rs = (Inr (), filter (\<lambda>r. \<not> P r) rs)"
  by (simp add: rows_Delete_def rows_write_def)

lemma filter_patch_first:
  "(\<And>r. P (f r) = P r) \<Longrightarrow>
   filter P (patch_first P f rs) = (case filter P rs of [] \<Rightarrow> [] | r # rest \<Rightarrow> f r # rest)"
  by (induction rs) (auto split: list.splits)

lemma filter_upsert_other:
  "P v \<Longrightarrow> filter (\<lambda>x. \<not> P x) (upsert P v rs) = filter (\<lambda>x. \<not> P x) rs"
  by (induction rs) auto

lemma upsert_member: "v \<in> set (upsert P v rs)"
  by (induction rs) auto

lemma Database_Get_idtoken_nonempty:
  "Database_Get_idtoken st i d u = Inr (Some rows) \<Longrightarrow> rows \<noteq> []"
  by (auto simp: Database_Get_idtoken_def rows_Get_Some)

lemma Database_Get_contexttoken_nonempty:
  "Database_Get_contexttoken st c u = Inr (Some rows) \<Longrightarrow> rows \<noteq> []"
  by (auto simp: Database_Get_contexttoken_def rows_Get_Some)

lemma Database_Replace_contexttoken_stored:
  "Database_Replace_contexttoken st c u v = (Inr x, st') \<Longrightarrow> v \<in> set (contexttoken_rows st')"
  by (cases "fault_of st OpReplace Ccontexttoken")
     (auto simp: Database_Replace_contexttoken_def rows_Replace_def rows_write_def upsert_member)

text \<open>Unfolding sets for evaluating the functions on the concrete inputs.\<close>

lemmas example_defs =
  example_auth_config_def example_platform_row_def example_claims_def example_ltik_def
  example_env_def example_provider_def initial_provider_def example_store_def
  example_store_idtoken_only_def example_store_session_def example_store_replace_fails_def
  example_request_def example_callback_bad_token_def example_callback_def
  example_session_request_def example_session_request_other_user_def
  example_login_def example_login_without_iss_def example_new_platform_def example_rename_def
  example_empty_name_def example_store_unavailable_def example_store_goes_away_def
  fresh_response_def

lemmas js_defs = truthy_def js_string_def js_or_def

lemmas db_defs =
  rows_Get_def rows_write_def rows_Replace_def rows_Modify_def rows_Delete_def
  Database_Get_platform_def Database_Replace_platform_def Database_Modify_platform_def
  Database_Delete_platform_def Database_Delete_publickey_def Database_Delete_privatekey_def
  Database_Get_idtoken_def Database_Replace_idtoken_def Database_Get_contexttoken_def
  Database_Replace_contexttoken_def kid_matches_def idtoken_matches_def contexttoken_matches_def
  apply_platform_patch_def StoreError_def

lemmas uri_defs = encodeURIComponent_def uri_escape_def uri_unreserved_def hexdigit_def

lemmas middleware_defs =
  sessionValidator_def sessionValidator_try_def sessionValidator_launch_def
  sessionValidator_materialize_def sessionValidator_session_def sessionValidator_load_def
  session_user_def reserved_path_def whitelisted_def launch_contextId_def
  launch_platformCode_def platformToken_of_def contextToken_of_def newLtikObj_of_def
  res_cookie_def res_clearCookie_def

lemmas platform_defs =
  getPlatform_def getAllPlatforms_def registerPlatform_def registerPlatform_try_def
  registerPlatform_catch_def rethrow_def error_toString_def merge_patch_def platform_of_row_def
  new_Platform_def


section \<open>Properties of getAllPlatforms\<close>

text \<open>
  C10. \<^verbatim>\<open>getAllPlatforms\<close> returns an array whenever the Store answers its
  \<^verbatim>\<open>Get\<close>: the empty array when the answer is \<^verbatim>\<open>false\<close> (it never returns
  \<^verbatim>\<open>false\<close> itself), and otherwise one Platform per row, which is one Platform per row
  of the \<^verbatim>\<open>platform\<close> collection.
\<close>

theorem getAllPlatforms_returns_array:
  assumes "Database_Get_platform st None = Inr got"
  shows "getAllPlatforms p st =
           Inr (case got of None \<Rightarrow> []
                | Some platforms \<Rightarrow> map (platform_of_row (ENCRYPTIONKEY p)) platforms)
         \<and> getAllPlatforms p st = Inr (map (platform_of_row (ENCRYPTIONKEY p)) (platform_rows st))"
proof -
  from assms have nf: "fault_of st OpGet Cplatform = NoFault"
    by (auto simp: Database_Get_platform_def rows_Get_def split: if_splits)
  have g: "Database_Get_platform st None =
             Inr (case platform_rows st of [] \<Rightarrow> None | _ \<Rightarrow> Some (platform_rows st))"
    using nf by (simp add: Database_Get_platform_def rows_Get_all)
  show ?thesis
    using assms g by (auto simp: getAllPlatforms_def split: list.splits option.splits)
qed

text \<open>C10, at the store with the one registered platform.\<close>

theorem getAllPlatforms_returns_array_witness:
  "getAllPlatforms example_provider example_store
     = Inr [platform_of_row ''secret'' example_platform_row]"
proof -
  have g: "Database_Get_platform example_store None = Inr (Some [example_platform_row])"
    by (simp add: example_store_def db_defs)
  show ?thesis
    using getAllPlatforms_returns_array [OF g, of example_provider]
    by (simp add: example_provider_def initial_provider_def)
qed


section \<open>Properties of registerPlatform\<close>

lemma registerPlatform_catch_NoFault:
  assumes "fault_of st OpDelete Cpublickey = NoFault"
    and "fault_of st OpDelete Cprivatekey = NoFault"
    and "fault_of st OpDelete Cplatform = NoFault"
  shows "registerPlatform_catch st k url =
           (Inr (), st\<lparr> publickey_rows := filter (\<lambda>r. \<not> kid_matches k r) (publickey_rows st),
                        privatekey_rows := filter (\<lambda>r. \<not> kid_matches k r) (privatekey_rows st),
                        platform_rows := filter (\<lambda>r. platformUrl r \<noteq> url) (platform_rows st) \<rparr>)"
  using assms
  by (simp add: registerPlatform_catch_def Database_Delete_publickey_def
      Database_Delete_privatekey_def Database_Delete_platform_def rows_Delete_NoFault)

lemma registerPlatform_try_kid:
  "registerPlatform_try e p st pl = (res, Some k, st') \<Longrightarrow>
   \<exists>st1. generateProviderKeyPair e (ENCRYPTIONKEY p) st (js_string (arg_url pl)) = (Inr k, st1)"
  by (auto simp: registerPlatform_try_def Let_def
      split: sum.splits option.splits if_splits prod.splits)

lemma getPlatform_Some_rows:
  "getPlatform p st (Some u) None None = Inr (Some existing) \<Longrightarrow>
   fault_of st OpGet Cplatform = NoFault \<and> u \<noteq> [] \<and>
   (\<exists>obj rest. filter (\<lambda>r. platformUrl r = u) (platform_rows st) = obj # rest
        \<and> existing = platform_of_row (ENCRYPTIONKEY p) obj)"
  by (auto simp: getPlatform_def Database_Get_platform_def rows_Get_def truthy_def js_string_def
      split: if_splits list.splits option.splits sum.splits)

lemma getPlatform_rows:
  "fault_of st OpGet Cplatform = NoFault \<Longrightarrow> u \<noteq> [] \<Longrightarrow>
   filter (\<lambda>r. platformUrl r = u) (platform_rows st) = obj # rest \<Longrightarrow>
   getPlatform p st (Some u) None None = Inr (Some (platform_of_row (ENCRYPTIONKEY p) obj))"
  by (simp add: getPlatform_def Database_Get_platform_def rows_Get_def truthy_def js_string_def)

lemma registerPlatform_try_fails_after_keygen:
  assumes "registerPlatform_try e p st pl = (Inl err, Some k, st1)"
    and "generateProviderKeyPair e (ENCRYPTIONKEY p) st (js_string (arg_url pl)) = (r, st0)"
  shows "r = Inr k \<and> fault_of st1 = fault_of st0
         \<and> publickey_rows st1 = publickey_rows st0
         \<and> privatekey_rows st1 = privatekey_rows st0
         \<and> idtoken_rows st1 = idtoken_rows st0
         \<and> contexttoken_rows st1 = contexttoken_rows st0
         \<and> filter (\<lambda>x. platformUrl x \<noteq> js_string (arg_url pl)) (platform_rows st1)
             = filter (\<lambda>x. platformUrl x \<noteq> js_string (arg_url pl)) (platform_rows st0)"
proof -
  have u: "\<And>v rs. platformUrl v = js_string (arg_url pl) \<Longrightarrow>
             filter (\<lambda>x. platformUrl x \<noteq> js_string (arg_url pl))
               (upsert (\<lambda>x. platformUrl x = js_string (arg_url pl)) v rs)
             = filter (\<lambda>x. platformUrl x \<noteq> js_string (arg_url pl)) rs"
    by (rule filter_upsert_other) simp
  show ?thesis
    using assms
    by (cases "fault_of st0 OpReplace Cplatform")
       (auto simp: registerPlatform_try_def Let_def Database_Replace_platform_def rows_Replace_def
          rows_write_def u
          split: sum.splits option.splits if_splits prod.splits)
qed

text \<open>
  C4, as the code has it. When the \<^verbatim>\<open>try\<close> block of \<^verbatim>\<open>registerPlatform\<close> throws with
  \<^verbatim>\<open>kid\<close> set, that is, after \<^verbatim>\<open>generateProviderKeyPair\<close> has returned the new kid and
  left the store \<open>st0\<close>, and the Store carries out the three deletions of the \<^verbatim>\<open>catch\<close>
  block, the call throws \<^verbatim>\<open>new Error(err)\<close> and leaves \<open>st0\<close> without the public key
  rows and the private key rows of that kid and without the platform rows of the url:
  whatever the failed step had written is gone and every other row is as it was.
\<close>

theorem registerPlatform_rolls_back:
  assumes "truthy (arg_url pl)"
    and "registerPlatform_try e p st pl = (Inl err, Some k, st1)"
    and "generateProviderKeyPair e (ENCRYPTIONKEY p) st (js_string (arg_url pl)) = (Inr k, st0)"
    and "fault_of st0 OpDelete Cpublickey = NoFault"
    and "fault_of st0 OpDelete Cprivatekey = NoFault"
    and "fault_of st0 OpDelete Cplatform = NoFault"
  shows "registerPlatform e p st (Some pl) =
           (Inl (Error (error_toString err)),
            st0\<lparr> publickey_rows := filter (\<lambda>x. key_kid x \<noteq> k) (publickey_rows st0),
                 privatekey_rows := filter (\<lambda>x. key_kid x \<noteq> k) (privatekey_rows st0),
                 platform_rows :=
                   filter (\<lambda>x. platformUrl x \<noteq> js_string (arg_url pl)) (platform_rows st0) \<rparr>)"
proof -
  note same = registerPlatform_try_fails_after_keygen [OF assms(2,3)]
  have c: "registerPlatform_catch st1 (Some k) (js_string (arg_url pl)) =
           (Inr (), st1\<lparr> publickey_rows := filter (\<lambda>r. \<not> kid_matches (Some k) r) (publickey_rows st1),
                        privatekey_rows := filter (\<lambda>r. \<not> kid_matches (Some k) r) (privatekey_rows st1),
                        platform_rows := filter (\<lambda>r. platformUrl r \<noteq> js_string (arg_url pl)) (platform_rows st1) \<rparr>)"
    using assms(4-6) same by (intro registerPlatform_catch_NoFault) simp_all
  have eq: "st1\<lparr> publickey_rows := filter (\<lambda>r. \<not> kid_matches (Some k) r) (publickey_rows st1),
                        privatekey_rows := filter (\<lambda>r. \<not> kid_matches (Some k) r) (privatekey_rows st1),
                        platform_rows := filter (\<lambda>r. platformUrl r \<noteq> js_string (arg_url pl)) (platform_rows st1) \<rparr>
            = st0\<lparr> publickey_rows := filter (\<lambda>x. key_kid x \<noteq> k) (publickey_rows st0),
                 privatekey_rows := filter (\<lambda>x. key_kid x \<noteq> k) (privatekey_rows st0),
                 platform_rows :=
                   filter (\<lambda>x. platformUrl x \<noteq> js_string (arg_url pl)) (platform_rows st0) \<rparr>"
    using same by (cases st0, cases st1) (simp add: kid_matches_def)
  show ?thesis
    using assms(1,2) c eq by (simp add: registerPlatform_def rethrow_def)
qed

text \<open>
  C4 as amended, at a store whose upsert into \<^verbatim>\<open>platform\<close> writes the row and then
  throws: before the \<^verbatim>\<open>catch\<close> block the new key pair and the new platform row are in the
  store, after it the store is the one the call started from.
\<close>

theorem registerPlatform_rolls_back_witness:
  "map key_kid (publickey_rows (snd (snd (registerPlatform_try example_env example_provider
          example_store_replace_fails example_new_platform)))) = [''kid-0'', ''kid-1'']
   \<and> map platformUrl (platform_rows (snd (snd (registerPlatform_try example_env example_provider
          example_store_replace_fails example_new_platform))))
       = [''https://lms.example'', ''https://canvas.example'']
   \<and> registerPlatform example_env example_provider example_store_replace_fails
         (Some example_new_platform)
       = (Inl (Error ''StoreError: the store is unavailable''), example_store_replace_fails)"
proof -
  let ?t = "registerPlatform_try example_env example_provider example_store_replace_fails
              example_new_platform"
  let ?g = "generateProviderKeyPair example_env (ENCRYPTIONKEY example_provider)
              example_store_replace_fails (js_string (arg_url example_new_platform))"
  have f: "fst ?t = Inl StoreError" "fst (snd ?t) = Some ''kid-1''"
    by (simp_all add: example_defs js_defs platform_defs db_defs Let_def)
  have t: "?t = (Inl StoreError, Some ''kid-1'', snd (snd ?t))"
    using f by (simp add: prod_eq_iff)
  have g: "?g = (Inr ''kid-1'', snd ?g)"
    by (simp add: example_defs prod_eq_iff)
  have faults: "fault_of (snd ?g) OpDelete Cpublickey = NoFault"
    "fault_of (snd ?g) OpDelete Cprivatekey = NoFault"
    "fault_of (snd ?g) OpDelete Cplatform = NoFault"
    by (simp_all add: example_defs)
  have u: "truthy (arg_url example_new_platform)"
    by (simp add: example_new_platform_def truthy_def)
  have rows: "map key_kid (publickey_rows (snd (snd ?t))) = [''kid-0'', ''kid-1'']"
    "map platformUrl (platform_rows (snd (snd ?t))) = [''https://lms.example'', ''https://canvas.example'']"
    by (simp_all add: example_defs js_defs platform_defs db_defs Let_def)
  have st: "(snd ?g)\<lparr> publickey_rows := filter (\<lambda>x. key_kid x \<noteq> ''kid-1'') (publickey_rows (snd ?g)),
                 privatekey_rows := filter (\<lambda>x. key_kid x \<noteq> ''kid-1'') (privatekey_rows (snd ?g)),
                 platform_rows :=
                   filter (\<lambda>x. platformUrl x \<noteq> js_string (arg_url example_new_platform))
                     (platform_rows (snd ?g)) \<rparr>
            = example_store_replace_fails"
    by (simp add: example_defs js_string_def)
  have msg: "error_toString StoreError = ''StoreError: the store is unavailable''"
    by (simp add: error_toString_def StoreError_def)
  show ?thesis
    using registerPlatform_rolls_back [OF u t g faults] rows
    unfolding st msg by simp
qed

text \<open>
  C4 as stated has every failure after the key generation rolled back. At a store whose
  upsert into \<^verbatim>\<open>platform\<close> writes the row and then throws and whose deletions throw as
  well, the \<^verbatim>\<open>try\<close> block fails with \<^verbatim>\<open>kid\<close> set, the first
  \<^verbatim>\<open>await this.Database.Delete\<close> of the \<^verbatim>\<open>catch\<close> block (line 625) throws, and the call
  ends with the new key pair and the new platform row still in the store.
\<close>

theorem registerPlatform_rollback_cut_short:
  "fst (registerPlatform_try example_env example_provider example_store_goes_away
          example_new_platform) = Inl StoreError
   \<and> fst (snd (registerPlatform_try example_env example_provider example_store_goes_away
          example_new_platform)) = Some ''kid-1''
   \<and> fst (registerPlatform example_env example_provider example_store_goes_away
             (Some example_new_platform)) = Inl StoreError
   \<and> map key_kid (publickey_rows (snd (registerPlatform example_env example_provider
         example_store_goes_away (Some example_new_platform)))) = [''kid-0'', ''kid-1'']
   \<and> map key_kid (privatekey_rows (snd (registerPlatform example_env example_provider
         example_store_goes_away (Some example_new_platform)))) = [''kid-0'', ''kid-1'']
   \<and> map platformUrl (platform_rows (snd (registerPlatform example_env example_provider
         example_store_goes_away (Some example_new_platform))))
       = [''https://lms.example'', ''https://canvas.example'']"
  by (simp add: example_defs js_defs platform_defs db_defs Let_def)

text \<open>
  C5, as the code has it. When a Platform row of the url exists and the Store carries out
  the \<^verbatim>\<open>Modify\<close>, \<^verbatim>\<open>registerPlatform\<close> returns the existing Platform object, leaves both
  key collections as they were and does not depend on \<^verbatim>\<open>generateProviderKeyPair\<close>; the
  row then holds, for each of name, clientId, authentication endpoint and access token
  endpoint, the argument's value if that is truthy (\<^verbatim>\<open>a || b\<close>: neither undefined nor the
  empty string) and the stored value otherwise, the argument's \<^verbatim>\<open>authConfig\<close> if given,
  and the stored url, kid and key.
\<close>

theorem registerPlatform_existing_merges:
  assumes url: "arg_url pl = Some u"
    and ex: "getPlatform p st (Some u) None None = Inr (Some existing)"
    and ok: "fault_of st OpModify Cplatform = NoFault"
  shows "\<exists>st'. registerPlatform e p st (Some pl) = (Inr existing, st')
           \<and> publickey_rows st' = publickey_rows st
           \<and> privatekey_rows st' = privatekey_rows st
           \<and> getPlatform p st' (Some u) None None =
               Inr (Some (existing\<lparr>
                 plat_name := js_or (arg_name pl) (plat_name existing),
                 plat_clientId := js_or (arg_clientId pl) (plat_clientId existing),
                 plat_authEndpoint := js_or (arg_authenticationEndpoint pl) (plat_authEndpoint existing),
                 plat_accesstokenEndpoint :=
                   js_or (arg_accesstokenEndpoint pl) (plat_accesstokenEndpoint existing),
                 plat_authConfig :=
                   (case arg_authConfig pl of Some ac \<Rightarrow> ac | None \<Rightarrow> plat_authConfig existing)\<rparr>))
           \<and> (\<forall>g. registerPlatform (e\<lparr>generateProviderKeyPair := g\<rparr>) p st (Some pl)
                  = registerPlatform e p st (Some pl))"
proof -
  from getPlatform_Some_rows [OF ex] obtain obj rest where
    nf: "fault_of st OpGet Cplatform = NoFault" and u: "u \<noteq> []"
    and rows: "filter (\<lambda>r. platformUrl r = u) (platform_rows st) = obj # rest"
    and existing: "existing = platform_of_row (ENCRYPTIONKEY p) obj"
    by blast
  let ?m = "merge_patch pl existing"
  let ?st' = "st\<lparr>platform_rows := patch_first (\<lambda>r. platformUrl r = u) (apply_platform_patch ?m) (platform_rows st)\<rparr>"
  have m: "Database_Modify_platform st u ?m = (Inr (), ?st')"
    using ok by (simp add: Database_Modify_platform_def rows_Modify_def rows_write_def)
  have t: "\<And>e'. registerPlatform_try e' p st pl = (Inr existing, None, ?st')"
    using url ex m by (simp add: registerPlatform_try_def js_string_def)
  have r: "\<And>e'. registerPlatform e' p st (Some pl) = (Inr existing, ?st')"
    using url u t by (simp add: registerPlatform_def truthy_def)
  have keep: "\<And>r. (platformUrl (apply_platform_patch ?m r) = u) = (platformUrl r = u)"
    by (simp add: apply_platform_patch_def)
  have rows': "filter (\<lambda>r. platformUrl r = u) (platform_rows ?st') = apply_platform_patch ?m obj # rest"
    using filter_patch_first [of "\<lambda>r. platformUrl r = u" "apply_platform_patch ?m" "platform_rows st", OF keep] rows
    by simp
  have nf': "fault_of ?st' OpGet Cplatform = NoFault" using nf by simp
  have g: "getPlatform p ?st' (Some u) None None =
             Inr (Some (platform_of_row (ENCRYPTIONKEY p) (apply_platform_patch ?m obj)))"
    by (rule getPlatform_rows [OF nf' u rows'])
  have eq: "platform_of_row (ENCRYPTIONKEY p) (apply_platform_patch ?m obj) =
              existing\<lparr>
                 plat_name := js_or (arg_name pl) (plat_name existing),
                 plat_clientId := js_or (arg_clientId pl) (plat_clientId existing),
                 plat_authEndpoint := js_or (arg_authenticationEndpoint pl) (plat_authEndpoint existing),
                 plat_accesstokenEndpoint :=
                   js_or (arg_accesstokenEndpoint pl) (plat_accesstokenEndpoint existing),
                 plat_authConfig :=
                   (case arg_authConfig pl of Some ac \<Rightarrow> ac | None \<Rightarrow> plat_authConfig existing)\<rparr>"
    by (simp add: existing platform_of_row_def new_Platform_def apply_platform_patch_def merge_patch_def
        split: option.splits)
  show ?thesis
    using r g eq by simp
qed

text \<open>C5 as amended, at \<^verbatim>\<open>{ url: 'https://lms.example', name: 'Moodle 4' }\<close>.\<close>

theorem registerPlatform_existing_merges_witness:
  "\<exists>st'. registerPlatform example_env example_provider example_store (Some example_rename)
            = (Inr (platform_of_row ''secret'' example_platform_row), st')
         \<and> publickey_rows st' = publickey_rows example_store
         \<and> privatekey_rows st' = privatekey_rows example_store
         \<and> getPlatform example_provider st' (Some ''https://lms.example'') None None
             = Inr (Some ((platform_of_row ''secret'' example_platform_row)
                            \<lparr>plat_name := ''Moodle 4''\<rparr>))"
proof -
  have ex: "getPlatform example_provider example_store (Some ''https://lms.example'') None None
            = Inr (Some (platform_of_row ''secret'' example_platform_row))"
    by (simp add: example_defs js_defs platform_defs db_defs)
  have ok: "fault_of example_store OpModify Cplatform = NoFault"
    by (simp add: example_store_def)
  have url: "arg_url example_rename = Some ''https://lms.example''"
    by (simp add: example_rename_def)
  from registerPlatform_existing_merges [OF url ex ok, of example_env]
  obtain st' where
    "registerPlatform example_env example_provider example_store (Some example_rename)
       = (Inr (platform_of_row ''secret'' example_platform_row), st')"
    "publickey_rows st' = publickey_rows example_store"
    "privatekey_rows st' = privatekey_rows example_store"
    "getPlatform example_provider st' (Some ''https://lms.example'') None None
       = Inr (Some ((platform_of_row ''secret'' example_platform_row)\<lparr>plat_name := ''Moodle 4''\<rparr>))"
    by (auto simp: example_rename_def js_defs platform_of_row_def new_Platform_def
        example_platform_row_def)
  then show ?thesis by blast
qed

text \<open>
  C5 as stated has every non-null field of the argument merged. At
  \<^verbatim>\<open>{ url: 'https://lms.example', name: '' }\<close> the name is not null, and the stored name
  stays \<^verbatim>\<open>Moodle\<close>: \<^verbatim>\<open>platform.name || await _platform.platformName()\<close> takes the
  stored one.
\<close>

theorem registerPlatform_empty_name_not_merged:
  "arg_name example_empty_name = Some []
   \<and> map platformName (platform_rows (snd (registerPlatform example_env example_provider
         example_store (Some example_empty_name)))) = [''Moodle'']"
  by (simp add: example_defs js_defs platform_defs db_defs Let_def)


section \<open>Properties of the authentication middleware\<close>

lemma sessionValidator_steady:
  assumes nr: "\<not> reserved_path p (req_path req)"
    and tok: "req_token req = Some ltik" "ltik \<noteq> []"
  shows "sessionValidator e p st req res =
           (case sessionValidator_session e p st req res ltik of
              (Inl err, res') \<Rightarrow> (Redirect (baseUrl req @ invalidTokenRoute p), res', st)
            | (Inr out, res') \<Rightarrow> (out, res', st))"
proof -
  have t: "truthy (req_token req)" using tok by (simp add: truthy_def)
  have j: "js_string (req_token req) = ltik" using tok by (simp add: js_string_def)
  obtain r res' where s: "sessionValidator_session e p st req res ltik = (r, res')"
    by (cases "sessionValidator_session e p st req res ltik")
  have "sessionValidator_try e p st req res = (r, res', st)"
    by (simp add: sessionValidator_try_def t j s)
  then show ?thesis
    using nr by (cases r) (simp_all add: sessionValidator_def s)
qed

lemma session_user_truthy:
  "truthy (session_user p req v) \<longleftrightarrow>
     ltik_user v \<noteq> []
     \<and> (signedCookies req (ltik_platformCode v) = Some (ltik_user v)
        \<or> (\<not> truthy (signedCookies req (ltik_platformCode v)) \<and> devMode p))"
  by (cases "signedCookies req (ltik_platformCode v)")
     (auto simp: session_user_def Let_def truthy_def js_string_def)

lemma session_user_value:
  "truthy (session_user p req v) \<Longrightarrow> js_string (session_user p req v) = ltik_user v"
  by (cases "signedCookies req (ltik_platformCode v)")
     (auto simp: session_user_def Let_def truthy_def js_string_def split: if_splits)

lemma session_user_rejects:
  "(truthy (signedCookies req (ltik_platformCode v))
      \<and> signedCookies req (ltik_platformCode v) \<noteq> Some (ltik_user v))
   \<or> (\<not> truthy (signedCookies req (ltik_platformCode v)) \<and> \<not> devMode p)
   \<Longrightarrow> \<not> truthy (session_user p req v)"
  by (cases "signedCookies req (ltik_platformCode v)")
     (auto simp: session_user_def Let_def truthy_def js_string_def split: if_splits)

lemma sessionValidator_load_Next:
  "fst (sessionValidator_load st res ltik v u) = Inr out \<longleftrightarrow>
     out = Next
     \<and> (\<exists>rows. Database_Get_idtoken st (ltik_platformUrl v) (ltik_deploymentId v) u = Inr (Some rows))
     \<and> (\<exists>rows. Database_Get_contexttoken st (ltik_contextId v) u = Inr (Some rows))"
proof (cases "Database_Get_idtoken st (ltik_platformUrl v) (ltik_deploymentId v) u")
  case (Inl err)
  then show ?thesis by (simp add: sessionValidator_load_def)
next
  case (Inr gi)
  note gi = this
  show ?thesis
  proof (cases gi)
    case None
    with gi show ?thesis by (simp add: sessionValidator_load_def)
  next
    case (Some idTokens)
    with gi have i: "Database_Get_idtoken st (ltik_platformUrl v) (ltik_deploymentId v) u = Inr (Some idTokens)"
      by simp
    from Database_Get_idtoken_nonempty [OF i] obtain idToken irest where il: "idTokens = idToken # irest"
      by (cases idTokens) auto
    show ?thesis
    proof (cases "Database_Get_contexttoken st (ltik_contextId v) u")
      case (Inl err)
      then show ?thesis by (simp add: sessionValidator_load_def i)
    next
      case (Inr gc)
      then show ?thesis
        by (cases gc) (auto simp add: sessionValidator_load_def i il Let_def)
    qed
  qed
qed

lemma sessionValidator_load_response:
  "sessionValidator_load st res ltik v u = (Inr out, res') \<Longrightarrow>
   \<exists>l. res' = res\<lparr>res_locals := Some l\<rparr> \<and> locals_ltik l = ltik"
  by (auto simp: sessionValidator_load_def Let_def split: sum.splits option.splits list.splits)

lemma sessionValidator_load_error:
  "sessionValidator_load st res ltik v u = (Inl err, res') \<Longrightarrow> res' = res"
  by (auto simp: sessionValidator_load_def Let_def split: sum.splits option.splits list.splits)

lemma sessionValidator_session_verified:
  assumes "jwt_verify e ltik (ENCRYPTIONKEY p) = Inr v"
  shows "sessionValidator_session e p st req res ltik =
           (if truthy (session_user p req v)
            then sessionValidator_load st res ltik v (ltik_user v)
            else (Inr (Redirect (baseUrl req @ sessionTimeoutRoute p)), res))"
  using assms session_user_value [of p req v]
  by (simp add: sessionValidator_session_def Let_def)

lemma sessionValidator_session_timeout:
  assumes nr: "\<not> reserved_path p (req_path req)"
    and tok: "req_token req = Some ltik" "ltik \<noteq> []"
    and ver: "jwt_verify e ltik (ENCRYPTIONKEY p) = Inr v"
    and no: "\<not> truthy (session_user p req v)"
  shows "sessionValidator e p st req res = (Redirect (baseUrl req @ sessionTimeoutRoute p), res, st)"
  using sessionValidator_steady [OF nr tok] sessionValidator_session_verified [OF ver] no
  by simp

lemma sessionValidator_session_loaded:
  assumes nr: "\<not> reserved_path p (req_path req)"
    and tok: "req_token req = Some ltik" "ltik \<noteq> []"
    and ver: "jwt_verify e ltik (ENCRYPTIONKEY p) = Inr v"
    and yes: "truthy (session_user p req v)"
  shows "sessionValidator e p st req res =
           (case sessionValidator_load st res ltik v (ltik_user v) of
              (Inl err, res') \<Rightarrow> (Redirect (baseUrl req @ invalidTokenRoute p), res', st)
            | (Inr out, res') \<Rightarrow> (out, res', st))"
  using sessionValidator_steady [OF nr tok] sessionValidator_session_verified [OF ver] yes
  by simp

lemma sessionValidator_load_rows:
  assumes "Database_Get_idtoken st (ltik_platformUrl v) (ltik_deploymentId v) u
             = Inr (Some (idToken # irest))"
    and "Database_Get_contexttoken st (ltik_contextId v) u = Inr (Some (contextToken # crest))"
  shows "sessionValidator_load st res ltik v u =
           (Inr Next,
            res\<lparr>res_locals :=
                  Some \<lparr> locals_context = Some contextToken,
                         locals_token = (idToken, Some contextToken),
                         locals_ltik = ltik \<rparr>\<rparr>)"
  using assms by (simp add: sessionValidator_load_def Let_def)

text \<open>
  C1, as the code has it. For a request on a route that is not reserved, with an ltik
  that verifies: the request is passed on (\<^verbatim>\<open>next()\<close>) exactly when the ltik's user is not
  empty, the signed cookie named by the ltik's platformCode equals that user, or there is
  no such cookie (none, or an empty one) and devMode is on, and the Store returns rows
  for both the IdToken and the ContextToken key. It is then passed on with the session
  state in \<^verbatim>\<open>res.locals\<close>: \<^verbatim>\<open>token\<close> is the first IdToken row the Store returns for
  (platformUrl, deploymentId, user) with, as its \<^verbatim>\<open>platformContext\<close>, the first
  ContextToken row returned for (contextId, user), \<^verbatim>\<open>context\<close> is that ContextToken row,
  and \<^verbatim>\<open>ltik\<close> is the ltik; the cookies of the response and the store are untouched.
  When the cookie is there with another value, or is missing without devMode, the answer
  is the redirect to sessionTimeoutRoute.
\<close>

theorem session_passes_iff:
  assumes nr: "\<not> reserved_path p (req_path req)"
    and tok: "req_token req = Some ltik" "ltik \<noteq> []"
    and ver: "jwt_verify e ltik (ENCRYPTIONKEY p) = Inr v"
  shows "((fst (sessionValidator e p st req res) = Next)
            = (ltik_user v \<noteq> []
               \<and> (signedCookies req (ltik_platformCode v) = Some (ltik_user v)
                  \<or> (\<not> truthy (signedCookies req (ltik_platformCode v)) \<and> devMode p))
               \<and> (\<exists>rows. Database_Get_idtoken st (ltik_platformUrl v) (ltik_deploymentId v)
                             (ltik_user v) = Inr (Some rows))
               \<and> (\<exists>rows. Database_Get_contexttoken st (ltik_contextId v) (ltik_user v)
                             = Inr (Some rows))))
         \<and> ((fst (sessionValidator e p st req res) = Next)
            = (\<exists>idToken irest contextToken crest.
                 Database_Get_idtoken st (ltik_platformUrl v) (ltik_deploymentId v) (ltik_user v)
                   = Inr (Some (idToken # irest))
                 \<and> Database_Get_contexttoken st (ltik_contextId v) (ltik_user v)
                     = Inr (Some (contextToken # crest))
                 \<and> sessionValidator e p st req res
                     = (Next,
                        res\<lparr>res_locals :=
                              Some \<lparr> locals_context = Some contextToken,
                                     locals_token = (idToken, Some contextToken),
                                     locals_ltik = ltik \<rparr>\<rparr>,
                        st)))
         \<and> ((truthy (signedCookies req (ltik_platformCode v))
               \<and> signedCookies req (ltik_platformCode v) \<noteq> Some (ltik_user v))
             \<or> (\<not> truthy (signedCookies req (ltik_platformCode v)) \<and> \<not> devMode p)
             \<longrightarrow> sessionValidator e p st req res
                   = (Redirect (baseUrl req @ sessionTimeoutRoute p), res, st))"
proof (cases "truthy (session_user p req v)")
  case False
  have sv: "sessionValidator e p st req res = (Redirect (baseUrl req @ sessionTimeoutRoute p), res, st)"
    by (rule sessionValidator_session_timeout [OF nr tok ver False])
  from False have "\<not> (ltik_user v \<noteq> []
               \<and> (signedCookies req (ltik_platformCode v) = Some (ltik_user v)
                  \<or> (\<not> truthy (signedCookies req (ltik_platformCode v)) \<and> devMode p)))"
    by (simp add: session_user_truthy)
  then show ?thesis unfolding sv by auto
next
  case True
  note sv = sessionValidator_session_loaded [OF nr tok ver True]
  from True have ok: "ltik_user v \<noteq> []
               \<and> (signedCookies req (ltik_platformCode v) = Some (ltik_user v)
                  \<or> (\<not> truthy (signedCookies req (ltik_platformCode v)) \<and> devMode p))"
    by (simp add: session_user_truthy)
  from True have third: "\<not> ((truthy (signedCookies req (ltik_platformCode v))
               \<and> signedCookies req (ltik_platformCode v) \<noteq> Some (ltik_user v))
             \<or> (\<not> truthy (signedCookies req (ltik_platformCode v)) \<and> \<not> devMode p))"
    using session_user_rejects [of req v p] by blast
  let ?gi = "Database_Get_idtoken st (ltik_platformUrl v) (ltik_deploymentId v) (ltik_user v)"
  let ?gc = "Database_Get_contexttoken st (ltik_contextId v) (ltik_user v)"
  show ?thesis
  proof (cases "(\<exists>rows. ?gi = Inr (Some rows)) \<and> (\<exists>rows. ?gc = Inr (Some rows))")
    case False
    then have no: "\<And>out. fst (sessionValidator_load st res ltik v (ltik_user v)) \<noteq> Inr out"
      unfolding sessionValidator_load_Next by blast
    obtain r res' where l: "sessionValidator_load st res ltik v (ltik_user v) = (r, res')"
      by (cases "sessionValidator_load st res ltik v (ltik_user v)")
    from no l obtain err where r: "r = Inl err" by (cases r) auto
    have inv: "sessionValidator e p st req res = (Redirect (baseUrl req @ invalidTokenRoute p), res', st)"
      unfolding sv l r by simp
    have a: "fst (sessionValidator e p st req res) \<noteq> Next" unfolding inv by simp
    have b: "\<not> (\<exists>idToken irest contextToken crest.
                 ?gi = Inr (Some (idToken # irest)) \<and> ?gc = Inr (Some (contextToken # crest))
                 \<and> sessionValidator e p st req res
                     = (Next,
                        res\<lparr>res_locals :=
                              Some \<lparr> locals_context = Some contextToken,
                                     locals_token = (idToken, Some contextToken),
                                     locals_ltik = ltik \<rparr>\<rparr>,
                        st))"
      using False by blast
    show ?thesis using a b False third by blast
  next
    case rows: True
    then obtain irows crows where gi: "?gi = Inr (Some irows)" and gc: "?gc = Inr (Some crows)"
      by blast
    from Database_Get_idtoken_nonempty [OF gi] obtain idToken irest where il: "irows = idToken # irest"
      by (cases irows) auto
    from Database_Get_contexttoken_nonempty [OF gc] obtain contextToken crest
      where cl: "crows = contextToken # crest"
      by (cases crows) auto
    have l: "sessionValidator_load st res ltik v (ltik_user v) =
               (Inr Next,
                res\<lparr>res_locals :=
                      Some \<lparr> locals_context = Some contextToken,
                             locals_token = (idToken, Some contextToken),
                             locals_ltik = ltik \<rparr>\<rparr>)"
      by (rule sessionValidator_load_rows [OF gi [unfolded il] gc [unfolded cl]])
    have pass: "sessionValidator e p st req res =
               (Next,
                res\<lparr>res_locals :=
                      Some \<lparr> locals_context = Some contextToken,
                             locals_token = (idToken, Some contextToken),
                             locals_ltik = ltik \<rparr>\<rparr>,
                st)"
      unfolding sv l by simp
    have a: "fst (sessionValidator e p st req res) = Next" unfolding pass by simp
    have b: "\<exists>idToken irest contextToken crest.
                 ?gi = Inr (Some (idToken # irest)) \<and> ?gc = Inr (Some (contextToken # crest))
                 \<and> sessionValidator e p st req res
                     = (Next,
                        res\<lparr>res_locals :=
                              Some \<lparr> locals_context = Some contextToken,
                                     locals_token = (idToken, Some contextToken),
                                     locals_ltik = ltik \<rparr>\<rparr>,
                        st)"
      using gi gc il cl pass by blast
    show ?thesis using a b ok rows third by blast
  qed
qed

text \<open>
  C1 as amended, at the request with the matching cookie and both rows stored (passed on
  with the two rows of the launch attached) and at the request with the cookie of
  another user (session timeout).
\<close>

theorem session_passes_iff_witness:
  "sessionValidator example_env example_provider example_store_session
          example_session_request fresh_response
     = (Next,
        fresh_response\<lparr>res_locals :=
          Some \<lparr> locals_context = Some (contextToken_of example_callback example_claims),
                 locals_token = (platformToken_of example_claims,
                                 Some (contextToken_of example_callback example_claims)),
                 locals_ltik = ''ltik-u1'' \<rparr>\<rparr>,
        example_store_session)
   \<and> sessionValidator example_env example_provider example_store
          example_session_request_other_user fresh_response
       = (Redirect ''/sessionTimeout'', fresh_response, example_store)"
proof -
  have ver: "jwt_verify example_env ''ltik-u1'' (ENCRYPTIONKEY example_provider) = Inr example_ltik"
    by (simp add: example_defs)
  have nr: "\<not> reserved_path example_provider (req_path example_session_request)"
    by (simp add: example_defs reserved_path_def)
  have tok: "req_token example_session_request = Some ''ltik-u1''"
    by (simp add: example_defs)
  have cookie: "signedCookies example_session_request (ltik_platformCode example_ltik)
                  = Some (ltik_user example_ltik)"
    by (simp add: example_defs)
  have gi: "Database_Get_idtoken example_store_session (ltik_platformUrl example_ltik)
              (ltik_deploymentId example_ltik) (ltik_user example_ltik)
            = Inr (Some [platformToken_of example_claims])"
    by (simp add: example_defs db_defs platformToken_of_def)
  have gc: "Database_Get_contexttoken example_store_session (ltik_contextId example_ltik)
              (ltik_user example_ltik)
            = Inr (Some [contextToken_of example_callback example_claims])"
    by (simp add: example_defs db_defs contextToken_of_def launch_contextId_def uri_defs
        js_string_def)
  have u: "ltik_user example_ltik \<noteq> []"
    by (simp add: example_ltik_def)
  note inst = session_passes_iff [OF nr tok _ ver, of example_store_session fresh_response]
  have "fst (sessionValidator example_env example_provider example_store_session
          example_session_request fresh_response) = Next"
    using inst cookie gi gc u by simp
  with inst have a: "sessionValidator example_env example_provider example_store_session
          example_session_request fresh_response
     = (Next,
        fresh_response\<lparr>res_locals :=
          Some \<lparr> locals_context = Some (contextToken_of example_callback example_claims),
                 locals_token = (platformToken_of example_claims,
                                 Some (contextToken_of example_callback example_claims)),
                 locals_ltik = ''ltik-u1'' \<rparr>\<rparr>,
        example_store_session)"
    unfolding gi gc by auto
  have b: "sessionValidator example_env example_provider example_store
          example_session_request_other_user fresh_response
       = (Redirect ''/sessionTimeout'', fresh_response, example_store)"
    using session_passes_iff [of example_provider example_session_request_other_user "''ltik-u1''"
        example_env example_ltik example_store fresh_response] ver
    by (simp add: example_session_request_other_user_def example_session_request_def
        example_request_def example_provider_def initial_provider_def example_ltik_def
        reserved_path_def truthy_def)
  from a b show ?thesis by simp
qed

text \<open>
  C1 as stated makes the matching cookie sufficient. With the ltik verified, the cookie
  equal to the ltik's user and the ContextToken row missing, the request is not passed on:
  line 314 throws and the answer is the redirect to invalidTokenRoute.
\<close>

theorem session_matching_cookie_not_passed:
  "jwt_verify example_env ''ltik-u1'' (ENCRYPTIONKEY example_provider) = Inr example_ltik
   \<and> signedCookies example_session_request (ltik_platformCode example_ltik)
       = Some (ltik_user example_ltik)
   \<and> fst (sessionValidator example_env example_provider example_store_idtoken_only
             example_session_request fresh_response) = Redirect ''/invalidToken''"
  by (simp add: example_defs js_defs middleware_defs db_defs Let_def)

text \<open>
  C3, as the code has it. For a request on a route that is not reserved, with an ltik that
  verifies and the matching, non-empty session cookie: when the \<^verbatim>\<open>idtoken\<close> collection
  has no row of (platformUrl, deploymentId, user) or the \<^verbatim>\<open>contexttoken\<close> collection has
  no row of (contextId, user), the answer is the redirect to invalidTokenRoute, with the
  response and the store untouched.
\<close>

theorem session_rows_missing_invalid_token:
  assumes nr: "\<not> reserved_path p (req_path req)"
    and tok: "req_token req = Some ltik" "ltik \<noteq> []"
    and ver: "jwt_verify e ltik (ENCRYPTIONKEY p) = Inr v"
    and cookie: "signedCookies req (ltik_platformCode v) = Some (ltik_user v)" "ltik_user v \<noteq> []"
    and missing: "filter (idtoken_matches (ltik_platformUrl v) (ltik_deploymentId v) (ltik_user v))
                    (idtoken_rows st) = []
                  \<or> filter (contexttoken_matches (ltik_contextId v) (ltik_user v))
                      (contexttoken_rows st) = []"
  shows "sessionValidator e p st req res = (Redirect (baseUrl req @ invalidTokenRoute p), res, st)"
proof -
  have yes: "truthy (session_user p req v)"
    using cookie by (simp add: session_user_truthy)
  note sv = sessionValidator_session_loaded [OF nr tok ver yes]
  have "\<not> ((\<exists>rows. Database_Get_idtoken st (ltik_platformUrl v) (ltik_deploymentId v)
                             (ltik_user v) = Inr (Some rows))
               \<and> (\<exists>rows. Database_Get_contexttoken st (ltik_contextId v) (ltik_user v)
                             = Inr (Some rows)))"
    using missing
    by (auto simp: Database_Get_idtoken_def Database_Get_contexttoken_def rows_Get_Some)
  then have no: "\<And>out. fst (sessionValidator_load st res ltik v (ltik_user v)) \<noteq> Inr out"
    unfolding sessionValidator_load_Next by blast
  obtain r res' where l: "sessionValidator_load st res ltik v (ltik_user v) = (r, res')"
    by (cases "sessionValidator_load st res ltik v (ltik_user v)")
  from no l obtain err where r: "r = Inl err" by (cases r) auto
  from sessionValidator_load_error [OF l [unfolded r]] have "res' = res" .
  then show ?thesis unfolding sv l r by simp
qed

text \<open>C3 as amended, at the store that has the IdToken row and no ContextToken row.\<close>

theorem session_rows_missing_invalid_token_witness:
  "filter (contexttoken_matches (ltik_contextId example_ltik) (ltik_user example_ltik))
     (contexttoken_rows example_store_idtoken_only) = []
   \<and> sessionValidator example_env example_provider example_store_idtoken_only
        example_session_request fresh_response
       = (Redirect ''/invalidToken'', fresh_response, example_store_idtoken_only)"
proof -
  have ver: "jwt_verify example_env ''ltik-u1'' (ENCRYPTIONKEY example_provider) = Inr example_ltik"
    by (simp add: example_defs)
  have m: "filter (contexttoken_matches (ltik_contextId example_ltik) (ltik_user example_ltik))
     (contexttoken_rows example_store_idtoken_only) = []"
    by (simp add: example_store_idtoken_only_def example_store_def)
  show ?thesis
    using session_rows_missing_invalid_token [of example_provider example_session_request
        "''ltik-u1''" example_env example_ltik example_store_idtoken_only fresh_response] ver m
    by (simp add: example_session_request_def example_request_def example_provider_def
        initial_provider_def example_ltik_def reserved_path_def)
qed

text \<open>
  C3 as stated sends a session without its rows to sessionTimeoutRoute. With no IdToken
  row in the store, line 309 throws inside the \<^verbatim>\<open>try\<close> block and the \<^verbatim>\<open>catch\<close> of line
  331 redirects to invalidTokenRoute, which is another route.
\<close>

theorem session_rows_missing_not_timeout:
  "signedCookies example_session_request (ltik_platformCode example_ltik)
       = Some (ltik_user example_ltik)
   \<and> idtoken_rows example_store = []
   \<and> fst (sessionValidator example_env example_provider example_store
             example_session_request fresh_response) = Redirect ''/invalidToken''
   \<and> fst (sessionValidator example_env example_provider example_store
             example_session_request fresh_response)
       \<noteq> Redirect (baseUrl example_session_request @ sessionTimeoutRoute example_provider)"
  by (simp add: example_defs js_defs middleware_defs db_defs Let_def)

lemma launch_validation_fails:
  assumes nr: "\<not> reserved_path p (req_path req)"
    and notok: "\<not> truthy (req_token req)"
    and idt: "truthy (req_body req ''id_token'')"
    and bad: "validateToken e (js_string (req_body req ''id_token'')) (devMode p)
                \<lparr> expected_iss = signedCookies req (''state'' @ js_string (req_body req ''state'')),
                  expected_maxAge = tokenMaxAge p \<rparr>
                (ENCRYPTIONKEY p) st = Inl err"
  shows "sessionValidator e p st req res = (Redirect (baseUrl req @ invalidTokenRoute p), res, st)"
  using assms
  by (simp add: sessionValidator_def sessionValidator_try_def sessionValidator_launch_def Let_def)

text \<open>
  C2. The specification has a callback whose id token fails validation end with the
  \<^verbatim>\<open>state\<close> cookie cleared. \<^verbatim>\<open>res.clearCookie\<close> (line 198) comes after the
  \<^verbatim>\<open>await Auth.validateToken\<close> of line 195, so a validation that throws skips it: the
  response is the redirect to invalidTokenRoute (\<open>launch_validation_fails\<close>) and no
  cookie has been cleared, here with the cookie \<^verbatim>\<open>stateabc\<close> present on the request.
\<close>

theorem callback_invalid_token_leaves_state_cookie:
  "fst (sessionValidator example_env example_provider example_store example_callback_bad_token
          fresh_response) = Redirect ''/invalidToken''
   \<and> cookies_cleared (fst (snd (sessionValidator example_env example_provider example_store
          example_callback_bad_token fresh_response))) = []
   \<and> signedCookies example_callback_bad_token ''stateabc'' = Some ''https://lms.example''"
  by (simp add: example_defs js_defs middleware_defs Let_def)

lemma materialize_stores_contextToken:
  assumes "sessionValidator_materialize e p st req res state valid = (Inr out, res', st')"
  shows "contextToken_of req valid \<in> set (contexttoken_rows st')"
proof -
  obtain r1 st1 where r1: "Database_Replace_idtoken st (claim_iss valid) (claim_deployment_id valid)
                (claim_sub valid) (platformToken_of valid) = (r1, st1)"
    by (cases "Database_Replace_idtoken st (claim_iss valid) (claim_deployment_id valid)
                (claim_sub valid) (platformToken_of valid)")
  obtain r2 st2 where r2: "Database_Replace_contexttoken st1 (launch_contextId valid) (claim_sub valid)
                     (contextToken_of req valid) = (r2, st2)"
    by (cases "Database_Replace_contexttoken st1 (launch_contextId valid) (claim_sub valid)
                     (contextToken_of req valid)")
  from assms r1 obtain x1 where x1: "r1 = Inr x1"
    by (cases r1) (auto simp: sessionValidator_materialize_def Let_def)
  from assms r1 r2 x1 obtain x2 where x2: "r2 = Inr x2"
    by (cases r2) (auto simp: sessionValidator_materialize_def Let_def)
  from assms r1 r2 x1 x2 have "st' = st2"
    by (auto simp: sessionValidator_materialize_def Let_def split: sum.splits)
  with Database_Replace_contexttoken_stored [OF r2 [unfolded x2]] show ?thesis by simp
qed

lemma launch_contextId_formula:
  "launch_contextId valid =
     encodeURIComponent
       (claim_iss valid @ claim_deployment_id valid
        @ (case claim_context valid of None \<Rightarrow> ''NF'' | Some c \<Rightarrow> js_string (obj_id c))
        @ ''_''
        @ (case claim_resource_link valid of None \<Rightarrow> ''NF'' | Some r \<Rightarrow> js_string (obj_id r)))"
  by (simp add: launch_contextId_def Let_def js_string_def split: option.splits)

text \<open>
  C6. For a callback on a route that is not reserved whose id token validates to the
  claims \<open>valid\<close> and whose \<^verbatim>\<open>try\<close> block completes, the store holds afterwards a
  ContextToken row of the user \<^verbatim>\<open>sub\<close> and the request path whose contextId is
  \<^verbatim>\<open>encodeURIComponent(iss + deploymentId + courseId + '_' + resourceId)\<close>, where courseId
  is the id of the context claim, resourceId the id of the resource_link claim, and each
  is \<^verbatim>\<open>NF\<close> when its claim is absent.
\<close>

theorem launch_stores_contextId:
  assumes nr: "\<not> reserved_path p (req_path req)"
    and notok: "\<not> truthy (req_token req)"
    and idt: "truthy (req_body req ''id_token'')"
    and valid: "validateToken e (js_string (req_body req ''id_token'')) (devMode p)
                \<lparr> expected_iss = signedCookies req (''state'' @ js_string (req_body req ''state'')),
                  expected_maxAge = tokenMaxAge p \<rparr>
                (ENCRYPTIONKEY p) st = Inr valid"
    and completes: "sessionValidator_try e p st req res = (Inr out, res', st')"
  shows "sessionValidator e p st req res = (out, res', st')
         \<and> (\<exists>row \<in> set (contexttoken_rows st').
               ct_user row = claim_sub valid
               \<and> path row = req_path req
               \<and> contextId row =
                   encodeURIComponent
                     (claim_iss valid @ claim_deployment_id valid
                      @ (case claim_context valid of None \<Rightarrow> ''NF'' | Some c \<Rightarrow> js_string (obj_id c))
                      @ ''_''
                      @ (case claim_resource_link valid of None \<Rightarrow> ''NF''
                         | Some r \<Rightarrow> js_string (obj_id r))))"
proof -
  have m: "sessionValidator_materialize e p st req res (req_body req ''state'') valid = (Inr out, res', st')"
    using completes notok idt valid
    by (simp add: sessionValidator_try_def sessionValidator_launch_def Let_def)
  have row: "contextToken_of req valid \<in> set (contexttoken_rows st')"
    by (rule materialize_stores_contextToken [OF m])
  have c: "contextId (contextToken_of req valid) = launch_contextId valid"
          "ct_user (contextToken_of req valid) = claim_sub valid"
          "path (contextToken_of req valid) = req_path req"
    by (simp_all add: contextToken_of_def)
  have sv: "sessionValidator e p st req res = (out, res', st')"
    using nr completes by (simp add: sessionValidator_def)
  show ?thesis
    using sv row c launch_contextId_formula [of valid] by (intro conjI bexI [of _ "contextToken_of req valid"]) simp_all
qed

text \<open>
  C6, at the launch of \<^verbatim>\<open>u1\<close> from \<^verbatim>\<open>https://lms.example\<close>, deployment \<^verbatim>\<open>d\<close>, context
  \<^verbatim>\<open>c\<close>, resource \<^verbatim>\<open>r\<close>.
\<close>

theorem launch_stores_contextId_witness:
  "\<exists>row \<in> set (contexttoken_rows (snd (snd (sessionValidator example_env example_provider
        example_store example_callback fresh_response)))).
      ct_user row = ''u1'' \<and> contextId row = ''https%3A%2F%2Flms.exampledc_r''"
proof -
  let ?t = "sessionValidator_try example_env example_provider example_store example_callback
              fresh_response"
  have f: "fst ?t = Inr (Redirect ''/?ltik=ltik-u1'')"
    by (simp add: example_defs js_defs middleware_defs db_defs Let_def)
  have t: "?t = (Inr (Redirect ''/?ltik=ltik-u1''), fst (snd ?t), snd (snd ?t))"
    using f by (simp add: prod_eq_iff)
  have nr: "\<not> reserved_path example_provider (req_path example_callback)"
    by (simp add: example_defs reserved_path_def)
  have notok: "\<not> truthy (req_token example_callback)"
    by (simp add: example_defs truthy_def)
  have idt: "truthy (req_body example_callback ''id_token'')"
    by (simp add: example_defs truthy_def)
  have valid: "validateToken example_env (js_string (req_body example_callback ''id_token''))
                (devMode example_provider)
                \<lparr> expected_iss = signedCookies example_callback
                                   (''state'' @ js_string (req_body example_callback ''state'')),
                  expected_maxAge = tokenMaxAge example_provider \<rparr>
                (ENCRYPTIONKEY example_provider) example_store = Inr example_claims"
    by (simp add: example_defs js_string_def)
  have enc: "encodeURIComponent ''https://lms.exampledc_r'' = ''https%3A%2F%2Flms.exampledc_r''"
    by (simp add: uri_defs)
  from launch_stores_contextId [OF nr notok idt valid t]
  have sv: "snd (snd (sessionValidator example_env example_provider example_store example_callback
                 fresh_response)) = snd (snd ?t)"
    and row: "\<exists>row \<in> set (contexttoken_rows (snd (snd ?t))).
                ct_user row = ''u1'' \<and> contextId row = ''https%3A%2F%2Flms.exampledc_r''"
    using enc by (auto simp: example_claims_def js_string_def)
  show ?thesis unfolding sv by (rule row)
qed


section \<open>Properties of the login route\<close>

lemma login_try_error:
  "fst (login_try e p st req rnd nonce res) = Inl err \<longleftrightarrow>
     getPlatform p st ((req_query req ++ req_body req) ''iss'') None None = Inl err"
  by (auto simp: login_try_def Let_def split: sum.splits option.splits)



lemma login_registered_platform_sets_state_cookie:
  "login example_env example_provider example_store example_login
     ''0123456789abcdefghij'' ''n0'' fresh_response
   = (Redirect ''https://lms.example/auth'',
      \<lparr> cookies_set = [(''state0123456789abcdefghij'', ''https://lms.example'',
                         \<lparr> secure = False, httpOnly = True, signed = True, sameSite = None,
                           maxAge = Some 600000 \<rparr>)],
        cookies_cleared = [], res_locals = None \<rparr>)"
  by (simp add: example_defs js_defs platform_defs db_defs uri_defs login_def login_try_def
      ltiAdvantageLogin_def res_cookie_def Let_def)

end
